theory Spec2Isabelle
  imports Complex_Main
begin

section \<open>The CTT cross-sync vortex: cascade, resonance analysis, handshake\<close>

text \<open>
  A shallow embedding of \<^verbatim>\<open>CTT-Cross-Sync-Browser-to-Kernel-Temporal-Resonance-Escape.js\<close>.

  Numbers. JavaScript numbers are IEEE binary64 values. A finite one is modelled by the
  \<^typ>\<open>real\<close> it denotes. The arithmetic of the constructor and of the analysis, where
  exact values matter, goes through an \<open>engine\<close>: \<open>fl\<close> rounds the exact
  result of an operation to a number of the engine, \<open>Math_exp\<close> is its \<^verbatim>\<open>Math.exp\<close>.
  Two engines are defined: \<open>binary64\<close>, with round-to-nearest, ties to even, gradual
  underflow and a correctly rounded \<^verbatim>\<open>Math.exp\<close>, and \<open>exact\<close>, the arithmetic of the
  reals. Results that are not finite (\<^verbatim>\<open>NaN\<close>, the infinities of a division by
  zero) are values of \<open>jsnum\<close>; HOL's own \<open>0 / 0 = 0\<close> is never relied on. Left out:
  overflow to infinity (the exponent of \<open>binary64\<close> is unbounded above) and the sign of
  zero. The delay of a layer and the retune line are the formulas of the source over
  the reals: what is proved of them is the formula. Layer indices are \<^typ>\<open>nat\<close>,
  \<^verbatim>\<open>LAYERS\<close> and the primes are \<^typ>\<open>int\<close> (the code computes \<^verbatim>\<open>LAYERS - 1\<close>, which is
  \<open>-1\<close> for no layers).

  Effects. The methods of the class mutate the object and the page around it. Both are
  one record that every method takes and returns. A method that can throw returns an
  \<open>outcome\<close>: the promise resolved, or rejected with the error and the state as the
  throw left it. What the browser decides (the clock, whether a primitive throws, which
  channel exists) is read from a \<open>world\<close> value that the caller passes in.
\<close>

subsection \<open>Numbers\<close>

text \<open>
  Rounding to binary64: \<open>binade x\<close> is the exponent of \<open>x\<close>, not below that of the
  subnormal numbers; \<open>ulp x\<close> is the distance between neighbouring numbers there; \<open>x\<close>
  is rounded to the nearest multiple of it, a tie to the even one.
\<close>

definition round_even :: "real \<Rightarrow> int" where
  "round_even y =
     (if y - of_int \<lfloor>y\<rfloor> < 1 / 2 then \<lfloor>y\<rfloor>
      else if 1 / 2 < y - of_int \<lfloor>y\<rfloor> then \<lfloor>y\<rfloor> + 1
      else if even \<lfloor>y\<rfloor> then \<lfloor>y\<rfloor> else \<lfloor>y\<rfloor> + 1)"

definition binade :: "real \<Rightarrow> int" where
  "binade x = max \<lfloor>log 2 \<bar>x\<bar>\<rfloor> (- 1022)"

definition ulp :: "real \<Rightarrow> real" where
  "ulp x = 2 powr (of_int (binade x) - 52)"

definition round64 :: "real \<Rightarrow> real" where
  "round64 x = (if x = 0 then 0 else of_int (round_even (x / ulp x)) * ulp x)"

record engine =
  fl :: "real \<Rightarrow> real"
  Math_exp :: "real \<Rightarrow> real"

definition binary64 :: engine where
  "binary64 = \<lparr>fl = round64, Math_exp = (\<lambda>x. round64 (exp x))\<rparr>"

definition exact :: engine where
  "exact = \<lparr>fl = (\<lambda>x. x), Math_exp = exp\<rparr>"

datatype jsnum = Fin real | PosInf | NegInf | NaN

text \<open>\<^verbatim>\<open>a + b\<close>, \<^verbatim>\<open>a / b\<close> and \<^verbatim>\<open>a < b\<close> on numbers that need not be finite.\<close>

fun js_add :: "engine \<Rightarrow> jsnum \<Rightarrow> jsnum \<Rightarrow> jsnum" where
  "js_add eng (Fin a) (Fin b) = Fin (fl eng (a + b))"
| "js_add eng NaN y = NaN"
| "js_add eng x NaN = NaN"
| "js_add eng PosInf NegInf = NaN"
| "js_add eng NegInf PosInf = NaN"
| "js_add eng PosInf y = PosInf"
| "js_add eng NegInf y = NegInf"
| "js_add eng (Fin a) y = y"

fun js_div :: "engine \<Rightarrow> jsnum \<Rightarrow> jsnum \<Rightarrow> jsnum" where
  "js_div eng (Fin a) (Fin b) =
     (if b = 0 then (if a = 0 then NaN else if 0 < a then PosInf else NegInf)
      else Fin (fl eng (a / b)))"
| "js_div eng NaN y = NaN"
| "js_div eng x NaN = NaN"
| "js_div eng (Fin a) y = Fin 0"
| "js_div eng PosInf (Fin b) = (if 0 \<le> b then PosInf else NegInf)"
| "js_div eng NegInf (Fin b) = (if 0 \<le> b then NegInf else PosInf)"
| "js_div eng x y = NaN"

fun js_less :: "jsnum \<Rightarrow> jsnum \<Rightarrow> bool" where
  "js_less (Fin a) (Fin b) = (a < b)"
| "js_less NaN y = False"
| "js_less x NaN = False"
| "js_less NegInf NegInf = False"
| "js_less NegInf y = True"
| "js_less PosInf y = False"
| "js_less (Fin a) PosInf = True"
| "js_less (Fin a) NegInf = False"

text \<open>\<^verbatim>\<open>xs.reduce((a, b) => a + b, 0)\<close> on finite numbers.\<close>

definition fsum :: "engine \<Rightarrow> real list \<Rightarrow> real" where
  "fsum eng xs = foldl (\<lambda>a b. fl eng (a + b)) 0 xs"

subsection \<open>Configuration\<close>

record config =
  ALPHA :: real
  LAYERS :: int
  PRIMES :: "int list"
  RESONANCE_THRESHOLD :: real

text \<open>The constant object \<^verbatim>\<open>CTT_CONFIG\<close> (its \<^verbatim>\<open>CROSS_ORIGIN_TARGETS\<close> are read nowhere).\<close>

definition CTT_CONFIG :: config where
  "CTT_CONFIG =
     \<lparr>ALPHA = 302011 / 10000000,
      LAYERS = 33,
      PRIMES = [2, 3, 5, 7, 11, 13, 17, 19, 23, 29, 31],
      RESONANCE_THRESHOLD = 4041 / 10000\<rparr>"

subsection \<open>Messages, bridges, the browser\<close>

datatype message =
    CTT_HANDSHAKE real int real real
  | CTT_REGISTER real real
  | CTT_BROADCAST real real bool
  | CTT_SERVICE_WORKER_SYNC real int
  | CTT_HANDSHAKE_RESPONSE string real
  | CTT_EXCHANGE string int "real list" "int list"
  | OTHER_MESSAGE string

datatype target = Iframe nat | SharedWorkerPort | BroadcastTopic | ServiceWorkerActive | OwnWindow

datatype stimulus = DOMPressure nat | WorkerPressure nat | RAFPressure nat

datatype error = DOMError nat | RAFError nat | UndefinedEnergy nat

datatype log_event =
    LogResonanceEstablished jsnum
  | LogResonanceIncomplete jsnum
  | LogHandshakeAttempt
  | LogHandshakeResponse
  | LogBridgeEstablished string
  | LogExchange
  | LogThresholdReached nat
  | LogVortexComplete
  | LogResonanceAchieved
  | LogRetuning real

record bridge =
  bridge_id :: string
  bridge_energy :: real
  established :: real

text \<open>
  What the browser decides at one moment: \<open>now\<close> is \<^verbatim>\<open>Date.now()\<close>, \<open>random\<close> is
  \<^verbatim>\<open>Math.random()\<close>; \<open>dom_throws\<close> and \<open>raf_throws\<close> say that a DOM call of
  \<^verbatim>\<open>applyDOMPressure\<close>, or a call of \<^verbatim>\<open>applyRAFPressure\<close>, raises;
  \<open>has_Worker\<close> is \<^verbatim>\<open>window.Worker\<close> and \<open>worker_throws\<close> that creating the worker
  raises (a content security policy); \<open>iframes\<close> has one entry per iframe of the
  document, true when posting to it raises; the other fields are the same for the
  shared worker, the broadcast channel, the service worker (whose \<^verbatim>\<open>ready\<close> promise
  may never resolve) and \<^verbatim>\<open>localStorage\<close>.
\<close>

record world =
  now :: real
  random :: real
  dom_throws :: bool
  has_Worker :: bool
  worker_throws :: bool
  raf_throws :: bool
  iframes :: "bool list"
  has_SharedWorker :: bool
  sharedWorker_throws :: bool
  has_BroadcastChannel :: bool
  broadcast_throws :: bool
  has_serviceWorker :: bool
  serviceWorker_ready :: bool
  storage_throws :: bool

text \<open>
  The object's fields (\<open>energyLevels\<close> to \<open>activeBridge\<close>; \<^verbatim>\<open>temporalFrequencies\<close> is
  a \<^verbatim>\<open>Map\<close>, kept in insertion order) and the page's state that its methods change:
  the console, the stimuli started, the messages posted, the number of \<^verbatim>\<open>message\<close>
  listeners registered by \<^verbatim>\<open>handshakeViaPostMessage\<close>, and the \<^verbatim>\<open>ctt_bridge\<close> entry
  of \<^verbatim>\<open>localStorage\<close>. The console keeps the lines that report a verdict, a
  handshake, a bridge or the end of a run; the banner of \<^verbatim>\<open>calculateEnergyCascade\<close>,
  the progress line of every fifth layer and the debug lines are left out: they are
  written whatever happens and nothing reads them.
\<close>

record state =
  energyLevels :: "real list"
  totalEnergy :: real
  temporalFrequencies :: "(nat \<times> real list) list"
  resonanceEstablished :: bool
  activeBridge :: "bridge option"
  console :: "log_event list"
  fired :: "stimulus list"
  sent :: "(target \<times> message) list"
  listeners :: nat
  stored :: "bridge option"

datatype outcome = Resolved state | Rejected error state

fun state_of :: "outcome \<Rightarrow> state" where
  "state_of (Resolved st) = st"
| "state_of (Rejected e st) = st"

subsection \<open>The constructor\<close>

text \<open>\<^verbatim>\<open>Math.exp(-ALPHA * d)\<close>, in the constructor and in the analysis.\<close>

definition decay :: "engine \<Rightarrow> config \<Rightarrow> nat \<Rightarrow> real" where
  "decay eng cfg d = Math_exp eng (fl eng (- ALPHA cfg * real d))"

text \<open>
  \<^verbatim>\<open>Array.from({length: LAYERS}, (_, d) => Math.exp(-ALPHA * d))\<close>: a length below 0
  is clamped to 0, which is what \<^term>\<open>nat\<close> does.
\<close>

definition computeLevels :: "engine \<Rightarrow> config \<Rightarrow> real list" where
  "computeLevels eng cfg = map (decay eng cfg) [0..<nat (LAYERS cfg)]"

definition CTT_CrossSyncVortex :: "engine \<Rightarrow> config \<Rightarrow> state" where
  "CTT_CrossSyncVortex eng cfg =
     \<lparr>energyLevels = computeLevels eng cfg,
      totalEnergy = fsum eng (computeLevels eng cfg),
      temporalFrequencies = [],
      resonanceEstablished = False,
      activeBridge = None,
      console = [],
      fired = [],
      sent = [],
      listeners = 0,
      stored = None\<rparr>"

text \<open>\<^verbatim>\<open>this.energyLevels[d]\<close>; \<open>None\<close> is \<^verbatim>\<open>undefined\<close>.\<close>

definition energyAt :: "state \<Rightarrow> nat \<Rightarrow> real option" where
  "energyAt st d = (if d < length (energyLevels st) then Some (energyLevels st ! d) else None)"

subsection \<open>The handshake and the bridge\<close>

definition handshakeViaPostMessage :: "config \<Rightarrow> world \<Rightarrow> state \<Rightarrow> state" where
  "handshakeViaPostMessage cfg w st =
     st\<lparr>sent := sent st @
            map (\<lambda>i. (Iframe i, CTT_HANDSHAKE (ALPHA cfg) (LAYERS cfg) (totalEnergy st) (now w)))
              (filter (\<lambda>i. \<not> iframes w ! i) [0..<length (iframes w)]),
        listeners := listeners st + 1\<rparr>"

definition handshakeViaSharedWorker :: "world \<Rightarrow> state \<Rightarrow> state" where
  "handshakeViaSharedWorker w st =
     (if has_SharedWorker w then
        (if sharedWorker_throws w then st
         else st\<lparr>sent := sent st @ [(SharedWorkerPort, CTT_REGISTER (now w) (totalEnergy st))]\<rparr>)
      else st)"

definition handshakeViaBroadcastChannel :: "config \<Rightarrow> world \<Rightarrow> state \<Rightarrow> state" where
  "handshakeViaBroadcastChannel cfg w st =
     (if has_BroadcastChannel w then
        (if broadcast_throws w then st
         else st\<lparr>sent := sent st @
                [(BroadcastTopic, CTT_BROADCAST (ALPHA cfg) (totalEnergy st) (resonanceEstablished st))]\<rparr>)
      else st)"

definition handshakeViaServiceWorker :: "config \<Rightarrow> world \<Rightarrow> state \<Rightarrow> state" where
  "handshakeViaServiceWorker cfg w st =
     (if has_serviceWorker w then
        (if serviceWorker_ready w then
           st\<lparr>sent := sent st @
                [(ServiceWorkerActive, CTT_SERVICE_WORKER_SYNC (totalEnergy st) (LAYERS cfg))]\<rparr>
         else st)
      else st)"

definition attemptCrossDomainHandshake :: "config \<Rightarrow> world \<Rightarrow> state \<Rightarrow> state" where
  "attemptCrossDomainHandshake cfg w st =
     handshakeViaServiceWorker cfg w
       (handshakeViaBroadcastChannel cfg w
         (handshakeViaSharedWorker w
           (handshakeViaPostMessage cfg w
             (st\<lparr>console := console st @ [LogHandshakeAttempt]\<rparr>))))"

definition initiateCrossDomainExchange :: "config \<Rightarrow> world \<Rightarrow> state \<Rightarrow> bridge \<Rightarrow> state" where
  "initiateCrossDomainExchange cfg w st b =
     (let st1 = st\<lparr>console := console st @ [LogExchange],
                   sent := sent st @
                     [(OwnWindow, CTT_EXCHANGE (bridge_id b) (LAYERS cfg) (energyLevels st) (PRIMES cfg))]\<rparr>
      in if storage_throws w then st1 else st1\<lparr>stored := Some b\<rparr>)"

definition establishTemporalBridge :: "config \<Rightarrow> world \<Rightarrow> state \<Rightarrow> string \<Rightarrow> real \<Rightarrow> state" where
  "establishTemporalBridge cfg w st bridgeId energy =
     (let b = \<lparr>bridge_id = bridgeId, bridge_energy = energy, established = now w\<rparr>
      in initiateCrossDomainExchange cfg w
           (st\<lparr>console := console st @ [LogBridgeEstablished bridgeId], activeBridge := Some b\<rparr>) b)"

text \<open>
  The \<^verbatim>\<open>message\<close> listener that \<^verbatim>\<open>handshakeViaPostMessage\<close> registers, run on one
  event: only a \<^verbatim>\<open>CTT_HANDSHAKE_RESPONSE\<close> is acted on.
\<close>

fun onMessage :: "config \<Rightarrow> state \<Rightarrow> world \<times> message \<Rightarrow> state" where
  "onMessage cfg st (w, CTT_HANDSHAKE_RESPONSE bridgeId energy) =
     establishTemporalBridge cfg w (st\<lparr>console := console st @ [LogHandshakeResponse]\<rparr>) bridgeId energy"
| "onMessage cfg st (w, m) = st"

text \<open>
  A \<^verbatim>\<open>message\<close> event on the window runs every listener registered so far, one per
  call of \<^verbatim>\<open>handshakeViaPostMessage\<close>; none of them registers another.
\<close>

definition dispatchMessage :: "config \<Rightarrow> state \<Rightarrow> world \<times> message \<Rightarrow> state" where
  "dispatchMessage cfg st ev = ((\<lambda>s. onMessage cfg s ev) ^^ listeners st) st"

text \<open>
  The bridge objects created so far (each creation is reported on the console) and
  the exchanges posted to the own window so far.
\<close>

fun is_BridgeEstablished :: "log_event \<Rightarrow> bool" where
  "is_BridgeEstablished (LogBridgeEstablished b) = True"
| "is_BridgeEstablished e = False"

definition bridgesCreated :: "state \<Rightarrow> nat" where
  "bridgesCreated st = length (filter is_BridgeEstablished (console st))"

fun is_exchange :: "target \<times> message \<Rightarrow> bool" where
  "is_exchange (OwnWindow, CTT_EXCHANGE b n ls ps) = True"
| "is_exchange m = False"

definition exchangesPosted :: "state \<Rightarrow> nat" where
  "exchangesPosted st = length (filter is_exchange (sent st))"

subsection \<open>Recording and analysing\<close>

record frequency =
  f_layer :: nat
  f_avgDelay :: real
  f_expected :: real
  f_deviation :: jsnum
  f_energy :: "real option"

text \<open>
  One entry of \<^verbatim>\<open>frequencies\<close>. The list of delays has two elements or more, so the
  average is finite; the expected value can be 0 (an underflow of \<^verbatim>\<open>Math.exp\<close>), and
  the deviation is then \<^verbatim>\<open>NaN\<close> or infinite.
\<close>

definition frequencyOf :: "engine \<Rightarrow> config \<Rightarrow> state \<Rightarrow> nat \<Rightarrow> real list \<Rightarrow> frequency" where
  "frequencyOf eng cfg st layer delays =
     (let avgDelay = fl eng (fsum eng delays / real (length delays));
          expected = fl eng (decay eng cfg layer * 1000);
          deviation = js_div eng (Fin \<bar>fl eng (avgDelay - expected)\<bar>) (Fin expected)
      in \<lparr>f_layer = layer, f_avgDelay = avgDelay, f_expected = expected,
          f_deviation = deviation, f_energy = energyAt st layer\<rparr>)"

text \<open>The first loop of \<^verbatim>\<open>analyzeResonancePattern\<close>, over the entries of the map.\<close>

fun collectFrequencies ::
  "engine \<Rightarrow> config \<Rightarrow> state \<Rightarrow> (nat \<times> real list) list \<Rightarrow> frequency list" where
  "collectFrequencies eng cfg st [] = []"
| "collectFrequencies eng cfg st ((layer, delays) # rest) =
     (if length delays > 1
      then frequencyOf eng cfg st layer delays # collectFrequencies eng cfg st rest
      else collectFrequencies eng cfg st rest)"

text \<open>
  \<^verbatim>\<open>frequencies.reduce((sum, f) => sum + f.deviation, 0) / frequencies.length\<close>: with no
  frequencies this is \<^verbatim>\<open>0 / 0\<close>, that is \<^verbatim>\<open>NaN\<close>.
\<close>

definition avgDeviation :: "engine \<Rightarrow> config \<Rightarrow> state \<Rightarrow> jsnum" where
  "avgDeviation eng cfg st =
     (let frequencies = collectFrequencies eng cfg st (temporalFrequencies st)
      in js_div eng (foldl (\<lambda>sum f. js_add eng sum (f_deviation f)) (Fin 0) frequencies)
           (Fin (real (length frequencies))))"

text \<open>The test \<^verbatim>\<open>avgDeviation < 0.1\<close>; the literal is the number nearest to a tenth.\<close>

definition converged :: "engine \<Rightarrow> config \<Rightarrow> state \<Rightarrow> bool" where
  "converged eng cfg st = js_less (avgDeviation eng cfg st) (Fin (fl eng (1 / 10)))"

definition analyzeResonancePattern :: "engine \<Rightarrow> config \<Rightarrow> world \<Rightarrow> state \<Rightarrow> state" where
  "analyzeResonancePattern eng cfg w st =
     (if js_less (avgDeviation eng cfg st) (Fin (fl eng (1 / 10))) then
        attemptCrossDomainHandshake cfg w
          (st\<lparr>console := console st @ [LogResonanceEstablished (avgDeviation eng cfg st)],
              resonanceEstablished := True\<rparr>)
      else st\<lparr>console := console st @ [LogResonanceIncomplete (avgDeviation eng cfg st)]\<rparr>)"

text \<open>\<^verbatim>\<open>temporalFrequencies.get(layer).push(delay)\<close>, the key created when missing.\<close>

fun pushDelay :: "(nat \<times> real list) list \<Rightarrow> nat \<Rightarrow> real \<Rightarrow> (nat \<times> real list) list" where
  "pushDelay [] layer delay = [(layer, [delay])]"
| "pushDelay ((k, delays) # rest) layer delay =
     (if k = layer then (k, delays @ [delay]) # rest else (k, delays) # pushDelay rest layer delay)"

definition recordFrequency :: "engine \<Rightarrow> config \<Rightarrow> world \<Rightarrow> state \<Rightarrow> nat \<Rightarrow> real \<Rightarrow> state" where
  "recordFrequency eng cfg w st layer delay =
     (let st1 = st\<lparr>temporalFrequencies := pushDelay (temporalFrequencies st) layer delay\<rparr>
      in if int layer = LAYERS cfg - 1 then analyzeResonancePattern eng cfg w st1 else st1)"

subsection \<open>The delay and the stimuli of one layer\<close>

text \<open>
  \<^verbatim>\<open>layer % p === 0\<close>. In JavaScript \<^verbatim>\<open>layer % 0\<close> is \<^verbatim>\<open>NaN\<close>, so a zero never
  matches; HOL's \<open>n mod 0 = n\<close> would match layer 0.
\<close>

definition rem_is_zero :: "nat \<Rightarrow> int \<Rightarrow> bool" where
  "rem_is_zero layer p = (p \<noteq> 0 \<and> int layer mod p = 0)"

text \<open>\<^verbatim>\<open>PRIMES.find(p => layer % p === 0) || 1\<close>: \<open>||\<close> replaces \<^verbatim>\<open>undefined\<close> and 0.\<close>

definition primeFactor :: "config \<Rightarrow> nat \<Rightarrow> int" where
  "primeFactor cfg layer =
     (case find (rem_is_zero layer) (PRIMES cfg) of
        None \<Rightarrow> 1
      | Some p \<Rightarrow> if p = 0 then 1 else p)"

text \<open>The delay that \<^verbatim>\<open>createTemporalPressure\<close> computes; it reads the clock itself.\<close>

definition totalDelay :: "config \<Rightarrow> world \<Rightarrow> nat \<Rightarrow> real \<Rightarrow> real" where
  "totalDelay cfg w layer energy =
     (let baseDelay = energy * real_of_int (primeFactor cfg layer) * 1000;
          jitter = (if layer mod 2 = 0 then sin (now w * (1 / 1000)) * 50
                    else cos (now w * (1 / 1000)) * 50)
      in max 1 (baseDelay + jitter))"

text \<open>No \<^verbatim>\<open>try\<close> in \<^verbatim>\<open>applyDOMPressure\<close> and \<^verbatim>\<open>applyRAFPressure\<close>: a throw leaves the method.\<close>

definition applyDOMPressure :: "world \<Rightarrow> nat \<Rightarrow> real \<Rightarrow> state \<Rightarrow> outcome" where
  "applyDOMPressure w layer energy st =
     (if dom_throws w then Rejected (DOMError layer) st
      else Resolved (st\<lparr>fired := fired st @ [DOMPressure layer]\<rparr>))"

text \<open>The worker is created inside \<^verbatim>\<open>try\<close>; the \<^verbatim>\<open>catch\<close> only writes a debug line.\<close>

definition applyWorkerPressure :: "world \<Rightarrow> nat \<Rightarrow> state \<Rightarrow> state" where
  "applyWorkerPressure w layer st =
     (if has_Worker w then
        (if worker_throws w then st else st\<lparr>fired := fired st @ [WorkerPressure layer]\<rparr>)
      else st)"

definition applyRAFPressure :: "world \<Rightarrow> nat \<Rightarrow> real \<Rightarrow> state \<Rightarrow> outcome" where
  "applyRAFPressure w layer energy st =
     (if raf_throws w then Rejected (RAFError layer) st
      else Resolved (st\<lparr>fired := fired st @ [RAFPressure layer]\<rparr>))"

text \<open>
  \<^verbatim>\<open>createTemporalPressure\<close>: \<open>w\<close> is the browser when the method is called, \<open>wt\<close> when
  the timer fires and the delay is recorded.
\<close>

definition createTemporalPressure ::
  "engine \<Rightarrow> config \<Rightarrow> world \<Rightarrow> world \<Rightarrow> nat \<Rightarrow> real \<Rightarrow> state \<Rightarrow> outcome" where
  "createTemporalPressure eng cfg w wt layer energy st =
     (let delay = totalDelay cfg w layer energy
      in case applyDOMPressure w layer energy st of
           Rejected e s \<Rightarrow> Rejected e s
         | Resolved s1 \<Rightarrow>
             (case applyRAFPressure w layer energy (applyWorkerPressure w layer s1) of
                Rejected e s \<Rightarrow> Rejected e s
              | Resolved s3 \<Rightarrow> Resolved (recordFrequency eng cfg wt s3 layer delay)))"

subsection \<open>The cascade driver\<close>

definition retuneParameters :: "config \<Rightarrow> world \<Rightarrow> state \<Rightarrow> state" where
  "retuneParameters cfg w st =
     st\<lparr>console := console st @ [LogRetuning (ALPHA cfg * (95 / 100 + random w * (1 / 10)))]\<rparr>"

text \<open>
  The body of the \<^verbatim>\<open>for\<close> loop of \<^verbatim>\<open>triggerCrossDomainVortex\<close>, for the layers still to
  run. The browser of layer \<open>d\<close> is \<open>env (2 * d)\<close> at the call and \<open>env (2 * d + 1)\<close> when
  its timer fires. The energy of a layer is never \<^verbatim>\<open>undefined\<close>: the levels and the
  loop are built from the same \<^verbatim>\<open>LAYERS\<close> (lemma \<open>energyAt_computeLevels\<close> below). Were
  it so, the source would go on with \<^verbatim>\<open>NaN\<close> delays and raise at \<^verbatim>\<open>energy.toFixed\<close> on
  the layers it logs; the model rejects at once.
\<close>

fun cascade :: "engine \<Rightarrow> config \<Rightarrow> (nat \<Rightarrow> world) \<Rightarrow> nat list \<Rightarrow> state \<Rightarrow> outcome" where
  "cascade eng cfg env [] st = Resolved st"
| "cascade eng cfg env (d # ds) st =
     (case energyAt st d of
        None \<Rightarrow> Rejected (UndefinedEnergy d) st
      | Some energy \<Rightarrow>
          (case createTemporalPressure eng cfg (env (2 * d)) (env (2 * d + 1)) d energy st of
             Rejected e s \<Rightarrow> Rejected e s
           | Resolved s1 \<Rightarrow>
               cascade eng cfg env ds
                 (if energy \<le> RESONANCE_THRESHOLD cfg \<and> \<not> resonanceEstablished s1
                  then s1\<lparr>console := console s1 @ [LogThresholdReached d]\<rparr>
                  else s1)))"

definition triggerCrossDomainVortex :: "engine \<Rightarrow> config \<Rightarrow> (nat \<Rightarrow> world) \<Rightarrow> state \<Rightarrow> outcome" where
  "triggerCrossDomainVortex eng cfg env st =
     (case cascade eng cfg env [0..<nat (LAYERS cfg)] st of
        Rejected e s \<Rightarrow> Rejected e s
      | Resolved s1 \<Rightarrow>
          (let s2 = s1\<lparr>console := console s1 @ [LogVortexComplete]\<rparr>
           in if resonanceEstablished s2
              then Resolved (s2\<lparr>console := console s2 @ [LogResonanceAchieved]\<rparr>)
              else Resolved (retuneParameters cfg (env (2 * nat (LAYERS cfg))) s2)))"

section \<open>The specification's words, and the examples\<close>

text \<open>
  The delay as the specification writes it: the prime factor is the first element of
  the prime set that divides the layer index, else 1.
\<close>

fun spec_primeFactor :: "int list \<Rightarrow> nat \<Rightarrow> int" where
  "spec_primeFactor [] layerIndex = 1"
| "spec_primeFactor (p # ps) layerIndex =
     (if rem_is_zero layerIndex p then p else spec_primeFactor ps layerIndex)"

definition spec_computeDelay :: "nat \<Rightarrow> real \<Rightarrow> config \<Rightarrow> real \<Rightarrow> real" where
  "spec_computeDelay layerIndex energy cfg clockSample =
     (let primeFactor = spec_primeFactor (PRIMES cfg) layerIndex;
          baseDelay = energy * real_of_int primeFactor * 1000;
          phase = (if even layerIndex then sin clockSample else cos clockSample);
          jitter = phase * 50
      in max 1 (baseDelay + jitter))"

text \<open>
  The layers that count for the verdict, as the specification writes them (two samples
  or more); the expected delay of a layer; the relative deviation of one layer from
  it; and the mean of the deviations of the qualifying layers, all in the arithmetic
  of the engine.
\<close>

definition qualifying :: "(nat \<times> real list) list \<Rightarrow> (nat \<times> real list) list" where
  "qualifying tf = filter (\<lambda>(layer, delays). 2 \<le> length delays) tf"

definition expected :: "engine \<Rightarrow> config \<Rightarrow> nat \<Rightarrow> real" where
  "expected eng cfg layer = fl eng (decay eng cfg layer * 1000)"

definition spec_deviation :: "engine \<Rightarrow> config \<Rightarrow> nat \<times> real list \<Rightarrow> jsnum" where
  "spec_deviation eng cfg = (\<lambda>(layer, samples).
     js_div eng
       (Fin \<bar>fl eng (fl eng (fsum eng samples / real (length samples)) - expected eng cfg layer)\<bar>)
       (Fin (expected eng cfg layer)))"

definition spec_aggregate :: "engine \<Rightarrow> config \<Rightarrow> (nat \<times> real list) list \<Rightarrow> jsnum" where
  "spec_aggregate eng cfg tf =
     js_div eng (foldl (js_add eng) (Fin 0) (map (spec_deviation eng cfg) (qualifying tf)))
       (Fin (real (length (qualifying tf))))"

text \<open>
  What one handshake attempt sends: a handshake to every frame that can be posted to,
  a registration to the shared worker, a broadcast, and a sync message to the service
  worker, each on a channel that is there and does not throw.
\<close>

definition handshakeMessages :: "config \<Rightarrow> world \<Rightarrow> state \<Rightarrow> (target \<times> message) list" where
  "handshakeMessages cfg w st =
     map (\<lambda>i. (Iframe i, CTT_HANDSHAKE (ALPHA cfg) (LAYERS cfg) (totalEnergy st) (now w)))
       (filter (\<lambda>i. \<not> iframes w ! i) [0..<length (iframes w)])
     @ (if has_SharedWorker w \<and> \<not> sharedWorker_throws w
        then [(SharedWorkerPort, CTT_REGISTER (now w) (totalEnergy st))] else [])
     @ (if has_BroadcastChannel w \<and> \<not> broadcast_throws w
        then [(BroadcastTopic, CTT_BROADCAST (ALPHA cfg) (totalEnergy st) (resonanceEstablished st))]
        else [])
     @ (if has_serviceWorker w \<and> serviceWorker_ready w
        then [(ServiceWorkerActive, CTT_SERVICE_WORKER_SYNC (totalEnergy st) (LAYERS cfg))] else [])"

text \<open>
  The delivery of handshake responses, one \<^verbatim>\<open>message\<close> event each, given by the
  browser at the delivery, the bridge identifier and the energy.
\<close>

definition deliverResponses :: "config \<Rightarrow> state \<Rightarrow> (world \<times> string \<times> real) list \<Rightarrow> state" where
  "deliverResponses cfg st rs =
     foldl (dispatchMessage cfg) st (map (\<lambda>(w, b, e). (w, CTT_HANDSHAKE_RESPONSE b e)) rs)"

text \<open>
  The console lines that report a decision: the two of \<^verbatim>\<open>analyzeResonancePattern\<close>
  and the first line of \<^verbatim>\<open>attemptCrossDomainHandshake\<close>.
\<close>

fun is_decision :: "log_event \<Rightarrow> bool" where
  "is_decision (LogResonanceEstablished a) = True"
| "is_decision (LogResonanceIncomplete a) = True"
| "is_decision LogHandshakeAttempt = True"
| "is_decision e = False"

text \<open>The delay of layer \<open>d\<close> in a run of the cascade in the browsers \<open>env\<close>.\<close>

definition layerDelay :: "engine \<Rightarrow> config \<Rightarrow> (nat \<Rightarrow> world) \<Rightarrow> nat \<Rightarrow> real" where
  "layerDelay eng cfg env d = totalDelay cfg (env (2 * d)) d (decay eng cfg d)"

fun is_Resolved :: "outcome \<Rightarrow> bool" where
  "is_Resolved (Resolved st) = True"
| "is_Resolved (Rejected e st) = False"

text \<open>
  A browser in which nothing throws, workers exist, and no frame, shared worker,
  broadcast channel or service worker is there, at clock reading \<open>t\<close>; and one with
  two frames, the second of which cannot be posted to, and the three other channels.
\<close>

definition browser_at :: "real \<Rightarrow> world" where
  "browser_at t =
     \<lparr>now = t, random = 1 / 2, dom_throws = False, has_Worker = True, worker_throws = False,
      raf_throws = False, iframes = [], has_SharedWorker = False, sharedWorker_throws = False,
      has_BroadcastChannel = False, broadcast_throws = False, has_serviceWorker = False,
      serviceWorker_ready = False, storage_throws = False\<rparr>"

definition busy_browser :: "real \<Rightarrow> world" where
  "busy_browser t =
     (browser_at t)\<lparr>iframes := [False, True], has_SharedWorker := True,
       has_BroadcastChannel := True, has_serviceWorker := True, serviceWorker_ready := True\<rparr>"

text \<open>
  Browsers over a run, the clock reading \<open>i\<close> at moment \<open>i\<close>: one in which nothing
  throws; one in which every worker creation throws; one in which every DOM call of
  \<^verbatim>\<open>applyDOMPressure\<close> throws; one in which every call of \<^verbatim>\<open>applyRAFPressure\<close> throws.
\<close>

definition quiet_run :: "nat \<Rightarrow> world" where
  "quiet_run i = browser_at (real i)"




text \<open>
  Configurations: two outside the specification's invariant, and one inside it with a
  fast decay.
\<close>

definition no_layers :: config where
  "no_layers = CTT_CONFIG\<lparr>LAYERS := 0\<rparr>"

definition one_flat_layer :: config where
  "one_flat_layer = CTT_CONFIG\<lparr>ALPHA := 0, LAYERS := 1\<rparr>"


text \<open>
  States of the object, in binary64: after one report for layer 0; after two reports
  for layer 0 and one for layer 1; after one report for each of the 33 layers, in
  order, each equal to the expected value (on the last of them the analysis runs);
  the state in which the analysis runs for the second time, when every layer has
  reported its expected value once more; the state after this second round of reports;
  after two reports of 1000 for layer 0; and the last state after the analysis has run
  on it, once and twice.
\<close>

definition one_sample :: state where
  "one_sample =
     recordFrequency binary64 CTT_CONFIG (browser_at 0) (CTT_CrossSyncVortex binary64 CTT_CONFIG) 0 2000"

definition mixed_samples :: state where
  "mixed_samples =
     recordFrequency binary64 CTT_CONFIG (browser_at 0)
       (recordFrequency binary64 CTT_CONFIG (browser_at 0)
         (recordFrequency binary64 CTT_CONFIG (browser_at 0) (CTT_CrossSyncVortex binary64 CTT_CONFIG) 0 900)
         1 5)
       0 1100"

definition exact_single_run :: state where
  "exact_single_run =
     foldl (\<lambda>st d. recordFrequency binary64 CTT_CONFIG (browser_at 0) st d (expected binary64 CTT_CONFIG d))
       (CTT_CrossSyncVortex binary64 CTT_CONFIG) [0..<33]"

definition exact_twice :: state where
  "exact_twice =
     exact_single_run
       \<lparr>temporalFrequencies :=
          map (\<lambda>d. (d, [expected binary64 CTT_CONFIG d, expected binary64 CTT_CONFIG d])) [0..<33]\<rparr>"

definition exact_two_rounds :: state where
  "exact_two_rounds =
     foldl (\<lambda>st d. recordFrequency binary64 CTT_CONFIG (browser_at 0) st d (expected binary64 CTT_CONFIG d))
       exact_single_run [0..<33]"

definition exact_pair :: state where
  "exact_pair =
     recordFrequency binary64 CTT_CONFIG (browser_at 0)
       (recordFrequency binary64 CTT_CONFIG (browser_at 0) (CTT_CrossSyncVortex binary64 CTT_CONFIG) 0 1000)
       0 1000"

definition handshaken :: state where
  "handshaken = analyzeResonancePattern binary64 CTT_CONFIG (busy_browser 0) exact_pair"

definition handshaken_twice :: state where
  "handshaken_twice = analyzeResonancePattern binary64 CTT_CONFIG (busy_browser 1) handshaken"

section \<open>Rounding to binary64\<close>

lemma round_even_of_int [simp]: "round_even (of_int k) = k"
  by (simp add: round_even_def)

lemma round_even_0 [simp]: "round_even 0 = 0"
  using round_even_of_int [of 0] by simp

lemma round_even_bounds: "of_int (round_even y) \<le> y + 1 / 2" "y - 1 / 2 \<le> of_int (round_even y)"
  unfolding round_even_def by (auto; linarith)+

lemma round_even_mono: "a \<le> b \<Longrightarrow> round_even a \<le> round_even b"
proof -
  assume ab: "a \<le> b"
  have fl: "\<lfloor>a\<rfloor> \<le> \<lfloor>b\<rfloor>" using ab by (rule floor_mono)
  show ?thesis
  proof (cases "\<lfloor>a\<rfloor> = \<lfloor>b\<rfloor>")
    case True
    then show ?thesis using ab unfolding round_even_def by auto
  next
    case False
    then have "\<lfloor>a\<rfloor> + 1 \<le> \<lfloor>b\<rfloor>" using fl by simp
    moreover have "round_even a \<le> \<lfloor>a\<rfloor> + 1" unfolding round_even_def by auto
    moreover have "\<lfloor>b\<rfloor> \<le> round_even b" unfolding round_even_def by auto
    ultimately show ?thesis by linarith
  qed
qed

lemma round_even_uminus: "round_even (- y) = - round_even y"
proof (cases "y = of_int \<lfloor>y\<rfloor>")
  case True
  then obtain k where "y = of_int k" by blast
  then have "- y = of_int (- k)" by simp
  then show ?thesis using \<open>y = of_int k\<close> by (simp only: round_even_of_int)
next
  case False
  then have f: "\<lfloor>- y\<rfloor> = - \<lfloor>y\<rfloor> - 1"
    by (metis ceiling_altdef ceiling_def add_diff_cancel_right' minus_diff_eq uminus_add_conv_diff minus_minus)
  have fr: "- y - of_int \<lfloor>- y\<rfloor> = 1 - (y - of_int \<lfloor>y\<rfloor>)"
    unfolding f by simp
  show ?thesis
    unfolding round_even_def fr unfolding f by auto
qed

lemma ulp_pos: "0 < ulp x"
  by (simp add: ulp_def)

lemma binade_ge: "- 1022 \<le> binade x"
  by (simp add: binade_def)

lemma binade_upper: "x \<noteq> 0 \<Longrightarrow> \<bar>x\<bar> < 2 powr (of_int (binade x) + 1)"
proof -
  assume "x \<noteq> 0"
  then have p: "0 < \<bar>x\<bar>" by simp
  have "\<bar>x\<bar> < 2 powr (of_int \<lfloor>log 2 \<bar>x\<bar>\<rfloor> + 1)"
    using floor_log_eq_powr_iff [of "\<bar>x\<bar>" 2 "\<lfloor>log 2 \<bar>x\<bar>\<rfloor>"] p by simp
  also have "\<dots> \<le> 2 powr (of_int (binade x) + 1)"
    by (rule powr_mono) (simp_all add: binade_def)
  finally show ?thesis .
qed

lemma binade_lower: "x \<noteq> 0 \<Longrightarrow> - 1022 < binade x \<Longrightarrow> 2 powr (of_int (binade x)) \<le> \<bar>x\<bar>"
proof -
  assume "x \<noteq> 0" and b: "- 1022 < binade x"
  then have p: "0 < \<bar>x\<bar>" by simp
  from b have "binade x = \<lfloor>log 2 \<bar>x\<bar>\<rfloor>" by (simp add: binade_def max_def split: if_splits)
  then show ?thesis
    using floor_log_eq_powr_iff [of "\<bar>x\<bar>" 2 "\<lfloor>log 2 \<bar>x\<bar>\<rfloor>"] p by simp
qed

lemma binade_eqI:
  assumes "x \<noteq> 0" "- 1022 \<le> e" "\<bar>x\<bar> < 2 powr (of_int e + 1)" "e = - 1022 \<or> 2 powr (of_int e) \<le> \<bar>x\<bar>"
  shows "binade x = e"
proof -
  have p: "0 < \<bar>x\<bar>" using assms(1) by simp
  show ?thesis
  proof (cases "2 powr (of_int e) \<le> \<bar>x\<bar>")
    case True
    then have "\<lfloor>log 2 \<bar>x\<bar>\<rfloor> = e"
      using floor_log_eq_powr_iff [of "\<bar>x\<bar>" 2 e] p assms(3) by simp
    then show ?thesis using assms(2) by (simp add: binade_def)
  next
    case False
    then have e: "e = - 1022" using assms(4) by blast
    have "log 2 \<bar>x\<bar> < of_int e"
      using False p by (simp add: log_less_iff)
    then have "\<lfloor>log 2 \<bar>x\<bar>\<rfloor> < e" by linarith
    then show ?thesis unfolding e by (simp add: binade_def)
  qed
qed


lemma round64_zero [simp]: "round64 0 = 0"
  by (simp add: round64_def)

lemma round64_exact: "x / ulp x = of_int k \<Longrightarrow> round64 x = x"
proof -
  assume k: "x / ulp x = of_int k"
  have "x = of_int k * ulp x"
    using k ulp_pos [of x] by (simp add: field_simps)
  then show ?thesis
    unfolding round64_def k round_even_of_int by simp
qed



lemma binade_1: "binade 1 = 0"
  by (rule binade_eqI) simp_all

lemma binade_1000: "binade (- 1000) = 9"
  by (rule binade_eqI) simp_all

lemma binade_2000: "binade (- 2000) = 10"
  by (rule binade_eqI) simp_all

lemma round64_1 [simp]: "round64 1 = 1"
  by (rule round64_exact [where k = "2 ^ 52"]) (simp add: ulp_def binade_1 powr_minus)

lemma round64_m1000: "round64 (- 1000) = - 1000"
  by (rule round64_exact [where k = "- 1000 * 2 ^ 43"]) (simp add: ulp_def binade_1000 powr_minus)

lemma round64_m2000: "round64 (- 2000) = - 2000"
  by (rule round64_exact [where k = "- 2000 * 2 ^ 42"]) (simp add: ulp_def binade_2000 powr_minus)




lemma powr_53: "(2::real) powr (of_int e + 1) = 2 ^ 53 * 2 powr (of_int e - 52)"
proof -
  have "(2::real) powr (of_int e + 1) = 2 powr (53 + (of_int e - 52))" by (simp add: algebra_simps)
  also have "\<dots> = 2 powr 53 * 2 powr (of_int e - 52)" by (simp only: powr_add)
  finally show ?thesis by simp
qed

lemma powr_52: "(2::real) powr (of_int e) = 2 ^ 52 * 2 powr (of_int e - 52)"
proof -
  have "(2::real) powr (of_int e) = 2 powr (52 + (of_int e - 52))" by simp
  also have "\<dots> = 2 powr 52 * 2 powr (of_int e - 52)" by (simp only: powr_add)
  finally show ?thesis by simp
qed

lemma scaled_upper: "x \<noteq> 0 \<Longrightarrow> \<bar>x / ulp x\<bar> < 2 ^ 53"
proof -
  assume "x \<noteq> 0"
  then have "\<bar>x\<bar> < 2 ^ 53 * ulp x"
    using binade_upper [of x] powr_53 [of "binade x"] by (simp add: ulp_def)
  then show ?thesis
    using ulp_pos [of x] by (simp add: field_simps abs_mult)
qed

lemma scaled_lower: "x \<noteq> 0 \<Longrightarrow> - 1022 < binade x \<Longrightarrow> 2 ^ 52 \<le> \<bar>x / ulp x\<bar>"
proof -
  assume "x \<noteq> 0" "- 1022 < binade x"
  then have "2 ^ 52 * ulp x \<le> \<bar>x\<bar>"
    using binade_lower [of x] powr_52 [of "binade x"] by (simp add: ulp_def)
  then show ?thesis
    using ulp_pos [of x] by (simp add: field_simps abs_mult)
qed

lemma round_even_abs_le: "\<bar>y\<bar> \<le> of_int n \<Longrightarrow> \<bar>round_even y\<bar> \<le> n"
proof -
  assume a: "\<bar>y\<bar> \<le> of_int n"
  then have b: "y \<le> of_int n" "- of_int n \<le> y" by auto
  have "round_even y \<le> round_even (of_int n)"
    using b(1) by (rule round_even_mono)
  moreover have "round_even (- of_int n) \<le> round_even y"
    using b(2) by (rule round_even_mono)
  ultimately show ?thesis by (simp add: round_even_uminus)
qed

lemma round_even_abs_ge: "of_int n \<le> \<bar>y\<bar> \<Longrightarrow> 0 \<le> n \<Longrightarrow> n \<le> \<bar>round_even y\<bar>"
proof -
  assume a: "of_int n \<le> \<bar>y\<bar>" and n: "0 \<le> n"
  show ?thesis
  proof (cases "0 \<le> y")
    case True
    then have "round_even (of_int n) \<le> round_even y" using a by (intro round_even_mono) simp
    then show ?thesis by simp
  next
    case False
    then have "round_even y \<le> round_even (- of_int n)" using a by (intro round_even_mono) simp
    then show ?thesis using n by (simp add: round_even_uminus)
  qed
qed

lemma round64_form: "round64 x = of_int (round_even (x / ulp x)) * ulp x"
  by (simp add: round64_def)

lemma round64_idem: "round64 (round64 x) = round64 x"
proof (cases "round64 x = 0")
  case True
  then show ?thesis by simp
next
  case False
  define k where "k = round_even (x / ulp x)"
  define u where "u = ulp x"
  have r: "round64 x = of_int k * u" by (simp add: round64_form k_def u_def)
  have x0: "x \<noteq> 0" using False by auto
  have k0: "k \<noteq> 0" using False r by auto
  have u0: "0 < u" by (simp add: u_def ulp_pos)
  have kle: "\<bar>k\<bar> \<le> 2 ^ 53"
    unfolding k_def using scaled_upper [OF x0] by (intro round_even_abs_le) simp
  have absr: "\<bar>round64 x\<bar> = of_int \<bar>k\<bar> * u"
    using u0 by (simp add: r abs_mult)
  show ?thesis
  proof (cases "\<bar>k\<bar> = 2 ^ 53")
    case True
    have a: "\<bar>round64 x\<bar> = 2 powr (of_int (binade x) + 1)"
      unfolding absr True by (simp add: powr_53 u_def ulp_def)
    have "binade (round64 x) = binade x + 1"
    proof (rule binade_eqI)
      show "round64 x \<noteq> 0" by (rule False)
      show "- 1022 \<le> binade x + 1" using binade_ge [of x] by simp
      show "\<bar>round64 x\<bar> < 2 powr (of_int (binade x + 1) + 1)"
        unfolding a by (intro powr_less_mono) simp_all
      show "binade x + 1 = - 1022 \<or> 2 powr of_int (binade x + 1) \<le> \<bar>round64 x\<bar>"
        unfolding a by simp
    qed
    then have "ulp (round64 x) = 2 * u"
      using powr_add [of "2::real" "of_int (binade x) - 52" 1] by (simp add: ulp_def u_def algebra_simps)
    then have "round64 x / ulp (round64 x) = of_int k / 2"
      using u0 by (simp add: r)
    also have "\<dots> = of_int (k div 2)"
    proof -
      have "k = 2 ^ 53 \<or> k = - (2 ^ 53)" using True by linarith
      then have "even k" by auto
      then show ?thesis by (auto elim!: evenE)
    qed
    finally show ?thesis by (rule round64_exact)
  next
    case False
    then have klt: "\<bar>k\<bar> < 2 ^ 53" using kle by simp
    have "binade (round64 x) = binade x"
    proof (rule binade_eqI)
      show "round64 x \<noteq> 0" by (rule \<open>round64 x \<noteq> 0\<close>)
      show "- 1022 \<le> binade x" by (rule binade_ge)
      have "(of_int \<bar>k\<bar> :: real) < of_int (2 ^ 53)"
        using klt by (simp only: of_int_less_iff)
      then have "of_int \<bar>k\<bar> * u < 2 ^ 53 * u"
        using u0 by simp
      then show "\<bar>round64 x\<bar> < 2 powr (of_int (binade x) + 1)"
        unfolding absr by (simp add: powr_53 u_def ulp_def)
      show "binade x = - 1022 \<or> 2 powr of_int (binade x) \<le> \<bar>round64 x\<bar>"
      proof (cases "binade x = - 1022")
        case True
        then show ?thesis by simp
      next
        case False
        then have "- 1022 < binade x" using binade_ge [of x] by simp
        then have "2 ^ 52 \<le> \<bar>x / ulp x\<bar>" using x0 by (intro scaled_lower)
        then have "2 ^ 52 \<le> \<bar>k\<bar>"
          unfolding k_def by (intro round_even_abs_ge) simp_all
        then have "(of_int (2 ^ 52) :: real) \<le> of_int \<bar>k\<bar>"
          by (simp only: of_int_le_iff)
        then have "(2 ^ 52 :: real) \<le> of_int \<bar>k\<bar>"
          by simp
        then have "2 ^ 52 * u \<le> of_int \<bar>k\<bar> * u"
          using u0 by simp
        then show ?thesis
          unfolding absr by (simp add: powr_52 [of "binade x"] u_def ulp_def)
      qed
    qed
    then have "ulp (round64 x) = u" by (simp add: ulp_def u_def)
    then have "round64 x / ulp (round64 x) = of_int k"
      using u0 by (simp add: r)
    then show ?thesis by (rule round64_exact)
  qed
qed


lemma round64_fixed_scaled: "round64 x = x \<Longrightarrow> x / ulp x = of_int (round_even (x / ulp x))"
proof -
  assume "round64 x = x"
  then have "of_int (round_even (x / ulp x)) * ulp x = x"
    by (simp add: round64_form)
  then show ?thesis
    using ulp_pos [of x] by (simp add: field_simps)
qed

lemma round64_double:
  assumes "round64 x = x"
  shows "round64 (2 * x) = 2 * x"
proof (cases "x = 0")
  case True
  then show ?thesis by simp
next
  case False
  define k where "k = round_even (x / ulp x)"
  have xk: "x / ulp x = of_int k"
    unfolding k_def using assms by (rule round64_fixed_scaled)
  show ?thesis
  proof (cases "2 powr (of_int (binade x)) \<le> \<bar>x\<bar>")
    case True
    have "binade (2 * x) = binade x + 1"
    proof (rule binade_eqI)
      show "2 * x \<noteq> 0" using False by simp
      show "- 1022 \<le> binade x + 1" using binade_ge [of x] by simp
      have "\<bar>2 * x\<bar> < 2 * 2 powr (of_int (binade x) + 1)"
        using binade_upper [OF False] by simp
      also have "\<dots> = 2 powr (of_int (binade x + 1) + 1)"
        using powr_add [of "2::real" 1 "of_int (binade x) + 1"] by (simp add: algebra_simps)
      finally show "\<bar>2 * x\<bar> < 2 powr (of_int (binade x + 1) + 1)" .
      have "(2::real) powr of_int (binade x + 1) = 2 * 2 powr of_int (binade x)"
        using powr_add [of "2::real" 1 "of_int (binade x)"] by (simp add: algebra_simps)
      then show "binade x + 1 = - 1022 \<or> 2 powr of_int (binade x + 1) \<le> \<bar>2 * x\<bar>"
        using True by (simp add: abs_mult)
    qed
    then have "ulp (2 * x) = 2 * ulp x"
      using powr_add [of "2::real" 1 "of_int (binade x) - 52"] by (simp add: ulp_def algebra_simps)
    then have "2 * x / ulp (2 * x) = of_int k"
      using xk by simp
    then show ?thesis by (rule round64_exact)
  next
    case small: False
    then have b: "binade x = - 1022"
      using binade_lower [OF False] binade_ge [of x] by (cases "binade x = - 1022") auto
    have "binade (2 * x) = - 1022"
    proof (rule binade_eqI)
      show "2 * x \<noteq> 0" using False by simp
      show "(- 1022 :: int) \<le> - 1022" by simp
      have "\<bar>2 * x\<bar> < 2 * 2 powr (- 1022)"
        using small b by simp
      also have "\<dots> = 2 powr (of_int (- 1022) + 1)"
        using powr_add [of "2::real" 1 "- 1022"] by simp
      finally show "\<bar>2 * x\<bar> < 2 powr (of_int (- 1022) + 1)" .
      show "(- 1022 :: int) = - 1022 \<or> 2 powr of_int (- 1022) \<le> \<bar>2 * x\<bar>" by simp
    qed
    then have "ulp (2 * x) = ulp x"
      by (simp add: ulp_def b)
    then have "2 * x / ulp (2 * x) = of_int (2 * k)"
      using xk by simp
    then show ?thesis by (rule round64_exact)
  qed
qed

lemma binade_uminus [simp]: "binade (- x) = binade x"
  by (simp add: binade_def)

lemma ulp_uminus [simp]: "ulp (- x) = ulp x"
  by (simp add: ulp_def)

lemma round64_uminus: "round64 (- x) = - round64 x"
  by (simp add: round64_form round_even_uminus)

lemma round64_nonneg: "0 \<le> x \<Longrightarrow> 0 \<le> round64 x"
proof -
  assume "0 \<le> x"
  then have "0 \<le> x / ulp x" using ulp_pos [of x] by simp
  then have "round_even 0 \<le> round_even (x / ulp x)" by (rule round_even_mono)
  then show ?thesis using ulp_pos [of x] by (simp add: round64_form)
qed

lemma binade_mono: "0 < x \<Longrightarrow> x \<le> y \<Longrightarrow> binade x \<le> binade y"
proof -
  assume "0 < x" "x \<le> y"
  then have "log 2 \<bar>x\<bar> \<le> log 2 \<bar>y\<bar>" by simp
  then have "\<lfloor>log 2 \<bar>x\<bar>\<rfloor> \<le> \<lfloor>log 2 \<bar>y\<bar>\<rfloor>" by (rule floor_mono)
  then show ?thesis by (simp add: binade_def)
qed

lemma round64_mono_pos:
  assumes "0 < x" "x \<le> y"
  shows "round64 x \<le> round64 y"
proof (cases "binade x = binade y")
  case True
  then have u: "ulp y = ulp x" by (simp add: ulp_def)
  have "x / ulp x \<le> y / ulp x"
    using assms(2) ulp_pos [of x] by (simp add: divide_right_mono)
  then have "round_even (x / ulp x) \<le> round_even (y / ulp x)" by (rule round_even_mono)
  then have "(of_int (round_even (x / ulp x)) :: real) \<le> of_int (round_even (y / ulp x))"
    by (simp only: of_int_le_iff)
  then show ?thesis
    using ulp_pos [of x] by (simp add: round64_form u)
next
  case False
  then have lt: "binade x + 1 \<le> binade y"
    using binade_mono [OF assms] by simp
  have x0: "x \<noteq> 0" and y0: "y \<noteq> 0" using assms by auto
  have "\<bar>round_even (x / ulp x)\<bar> \<le> 2 ^ 53"
    using scaled_upper [OF x0] by (intro round_even_abs_le) simp
  then have "round_even (x / ulp x) \<le> 2 ^ 53" by simp
  then have "(of_int (round_even (x / ulp x)) :: real) \<le> of_int (2 ^ 53)"
    by (simp only: of_int_le_iff)
  then have "round64 x \<le> 2 ^ 53 * ulp x"
    using ulp_pos [of x] by (simp add: round64_form)
  also have "\<dots> = 2 powr (of_int (binade x) + 1)"
    using powr_53 [of "binade x"] by (simp add: ulp_def)
  also have "\<dots> \<le> 2 powr (of_int (binade y))"
    using lt by (intro powr_mono) (simp_all add: of_int_le_iff [where 'a = real, symmetric] del: of_int_le_iff)
  also have "\<dots> = 2 ^ 52 * ulp y"
    using powr_52 [of "binade y"] by (simp add: ulp_def)
  also have "\<dots> \<le> round64 y"
  proof -
    have "- 1022 < binade y" using lt binade_ge [of x] by simp
    then have "2 ^ 52 \<le> \<bar>y / ulp y\<bar>" using y0 by (intro scaled_lower)
    moreover have "0 \<le> y / ulp y" using assms ulp_pos [of y] by simp
    ultimately have "of_int (2 ^ 52) \<le> y / ulp y" by simp
    then have "round_even (of_int (2 ^ 52)) \<le> round_even (y / ulp y)" by (rule round_even_mono)
    then have "2 ^ 52 \<le> round_even (y / ulp y)" by (simp only: round_even_of_int)
    then have "(of_int (2 ^ 52) :: real) \<le> of_int (round_even (y / ulp y))"
      by (simp only: of_int_le_iff)
    then show ?thesis
      using ulp_pos [of y] by (simp add: round64_form)
  qed
  finally show ?thesis .
qed

lemma round64_mono: "x \<le> y \<Longrightarrow> round64 x \<le> round64 y"
proof -
  assume xy: "x \<le> y"
  consider "0 < x" | "x \<le> 0" "0 \<le> y" | "y < 0" by linarith
  then show ?thesis
  proof cases
    case 1
    then show ?thesis using xy by (rule round64_mono_pos)
  next
    case 2
    have "round64 x = - round64 (- x)" by (simp add: round64_uminus)
    moreover have "0 \<le> round64 (- x)" using 2(1) by (intro round64_nonneg) simp
    moreover have "0 \<le> round64 y" using 2(2) by (rule round64_nonneg)
    ultimately show ?thesis by linarith
  next
    case 3
    then have "round64 (- y) \<le> round64 (- x)" using xy by (intro round64_mono_pos) simp_all
    then show ?thesis by (simp add: round64_uminus)
  qed
qed

lemma round64_of_int: "\<bar>m\<bar> < 2 ^ 53 \<Longrightarrow> round64 (of_int m) = of_int m"
proof (cases "m = 0")
  case True
  then show ?thesis by simp
next
  case False
  assume m: "\<bar>m\<bar> < 2 ^ 53"
  define x :: real where "x = of_int m"
  have x0: "x \<noteq> 0" using False by (simp add: x_def)
  have ax: "\<bar>x\<bar> = of_int \<bar>m\<bar>" by (simp add: x_def)
  have "1 \<le> \<bar>m\<bar>" using False by simp
  then have "(of_int 1 :: real) \<le> of_int \<bar>m\<bar>" by (simp only: of_int_le_iff)
  then have lo: "1 \<le> \<bar>x\<bar>" by (simp add: ax)
  have "(of_int \<bar>m\<bar> :: real) < of_int (2 ^ 53)" using m by (simp only: of_int_less_iff)
  then have hi: "\<bar>x\<bar> < 2 ^ 53" by (simp add: ax)
  have ge0: "0 \<le> binade x"
  proof (rule ccontr)
    assume "\<not> 0 \<le> binade x"
    then have "of_int (binade x) + 1 \<le> (0::real)" by linarith
    then have "(2::real) powr (of_int (binade x) + 1) \<le> 2 powr 0" by (intro powr_mono) simp_all
    then show False using binade_upper [OF x0] lo by simp
  qed
  have le52: "binade x \<le> 52"
  proof (rule ccontr)
    assume "\<not> binade x \<le> 52"
    then have "(53::real) \<le> of_int (binade x)" by linarith
    then have "(2::real) powr 53 \<le> 2 powr (of_int (binade x))" by (intro powr_mono) simp_all
    moreover have "2 powr (of_int (binade x)) \<le> \<bar>x\<bar>"
      using ge0 by (intro binade_lower [OF x0]) simp
    ultimately show False using hi by simp
  qed
  define n where "n = nat (52 - binade x)"
  have "of_int (binade x) - 52 = - real n" using le52 by (simp add: n_def)
  then have "ulp x = inverse (2 ^ n)"
    by (simp add: ulp_def powr_minus powr_realpow)
  then have "x / ulp x = of_int (m * 2 ^ n)" by (simp add: x_def divide_inverse)
  then have "round64 x = x" by (rule round64_exact)
  then show ?thesis by (simp add: x_def)
qed

lemma round64_numeral [simp]: "numeral v < (2 ^ 53 :: int) \<Longrightarrow> round64 (numeral v) = numeral v"
  using round64_of_int [of "numeral v"] by simp

lemma round64_quarter: "round64 (1 / 4) = 1 / 4"
proof -
  have b: "binade (1 / 4) = - 2"
    by (rule binade_eqI) (simp_all add: powr_minus)
  show ?thesis
    by (rule round64_exact [where k = "2 ^ 52"]) (simp add: ulp_def b powr_minus)
qed

lemma round64_sixteenth: "round64 (1 / 16) = 1 / 16"
proof -
  have b: "binade (1 / 16) = - 4"
    by (rule binade_eqI) (simp_all add: powr_minus)
  show ?thesis
    by (rule round64_exact [where k = "2 ^ 52"]) (simp add: ulp_def b powr_minus)
qed

lemma round64_tenth_pos: "0 < round64 (1 / 10)"
proof -
  have "round64 (1 / 16) \<le> round64 (1 / 10)" by (rule round64_mono) simp
  then show ?thesis by (simp add: round64_sixteenth)
qed

lemma binary64_simps [simp]:
  "fl binary64 = round64" "Math_exp binary64 = (\<lambda>x. round64 (exp x))"
  by (simp_all add: binary64_def)

lemma exact_simps [simp]: "fl exact = (\<lambda>x. x)" "Math_exp exact = exp"
  by (simp_all add: exact_def)


section \<open>The energy levels\<close>

lemma length_computeLevels: "length (computeLevels eng cfg) = nat (LAYERS cfg)"
  by (simp add: computeLevels_def)

lemma nth_computeLevels:
  "d < nat (LAYERS cfg) \<Longrightarrow> computeLevels eng cfg ! d = decay eng cfg d"
  by (simp add: computeLevels_def)

lemma decay_binary64_0: "decay binary64 cfg 0 = 1"
  by (simp add: decay_def)



lemma decay_exact: "decay exact cfg d = exp (- ALPHA cfg * real d)"
  by (simp add: decay_def)



text \<open>
  In the arithmetic of the reals the levels are as the specification has them:
  \<open>exp (- ALPHA * d)\<close>, in \<open>(0, 1]\<close>, strictly decreasing.
\<close>

lemma energyLevels_exact:
  assumes "0 < LAYERS cfg" and "0 < ALPHA cfg"
  shows "(\<forall>d < nat (LAYERS cfg).
            energyLevels (CTT_CrossSyncVortex exact cfg) ! d = exp (- ALPHA cfg * real d)
          \<and> 0 < energyLevels (CTT_CrossSyncVortex exact cfg) ! d
          \<and> energyLevels (CTT_CrossSyncVortex exact cfg) ! d \<le> 1)
       \<and> (\<forall>i j. i < j \<and> j < nat (LAYERS cfg) \<longrightarrow>
            energyLevels (CTT_CrossSyncVortex exact cfg) ! j
              < energyLevels (CTT_CrossSyncVortex exact cfg) ! i)"
proof -
  have E: "energyLevels (CTT_CrossSyncVortex exact cfg) = computeLevels exact cfg"
    by (simp add: CTT_CrossSyncVortex_def)
  have range: "0 < exp (- ALPHA cfg * real d) \<and> exp (- ALPHA cfg * real d) \<le> 1" for d
    using assms(2) by simp
  have decr: "exp (- ALPHA cfg * real j) < exp (- ALPHA cfg * real i)" if "i < j" for i j
    using assms(2) that by simp
  have d: "(\<forall>d < nat (LAYERS cfg).
            computeLevels exact cfg ! d = exp (- ALPHA cfg * real d)
          \<and> 0 < computeLevels exact cfg ! d \<and> computeLevels exact cfg ! d \<le> 1)"
    using range by (simp add: nth_computeLevels decay_exact)
  have e: "(\<forall>i j. i < j \<and> j < nat (LAYERS cfg) \<longrightarrow>
            computeLevels exact cfg ! j < computeLevels exact cfg ! i)"
    using decr by (simp add: nth_computeLevels decay_exact)
  show ?thesis
    unfolding E using d e by blast
qed


lemma CTT_layers: "nat (LAYERS CTT_CONFIG) = 33" "0 < LAYERS CTT_CONFIG"
  by (simp_all add: CTT_CONFIG_def)



section \<open>The delay of a layer\<close>

lemma find_rem_is_zero:
  "(case find (rem_is_zero layer) ps of None \<Rightarrow> 1 | Some p \<Rightarrow> if p = 0 then 1 else p)
   = spec_primeFactor ps layer"
  by (induction ps) (auto simp: rem_is_zero_def)

lemma primeFactor_spec: "primeFactor cfg layer = spec_primeFactor (PRIMES cfg) layer"
  by (simp add: primeFactor_def find_rem_is_zero)

lemma primeFactor_CTT_0: "primeFactor CTT_CONFIG 0 = 2"
  by (simp add: primeFactor_def CTT_CONFIG_def rem_is_zero_def)

text \<open>
  Claim C8. For every layer index, energy, configuration and clock reading, the delay
  computed by \<^verbatim>\<open>createTemporalPressure\<close> is \<open>max 1 (energy * primeFactor * 1000 + jitter)\<close>,
  where the prime factor is the first element of the prime set that divides the layer
  index (1 when none does) and the jitter is \<open>sin clock * 50\<close> on an even layer and
  \<open>cos clock * 50\<close> on an odd one, the clock sample being \<^verbatim>\<open>Date.now() * 0.001\<close>; the
  delay is at least 1.
\<close>

theorem totalDelay_formula:
  "totalDelay cfg w layer energy = spec_computeDelay layer energy cfg (now w * (1 / 1000))
   \<and> 1 \<le> totalDelay cfg w layer energy"
  by (simp add: totalDelay_def spec_computeDelay_def primeFactor_spec Let_def
      even_iff_mod_2_eq_zero)

theorem totalDelay_formula_witness:
  "totalDelay CTT_CONFIG (browser_at 0) 25 (1 / 2) = 2550
   \<and> 1 \<le> totalDelay CTT_CONFIG (browser_at 0) 25 (1 / 2)"
proof -
  have "spec_computeDelay 25 (1 / 2) CTT_CONFIG (now (browser_at 0) * (1 / 1000)) = 2550"
    by (simp add: spec_computeDelay_def CTT_CONFIG_def rem_is_zero_def browser_at_def)
  then show ?thesis
    using totalDelay_formula [of CTT_CONFIG "browser_at 0" 25 "1 / 2"] by simp
qed

text \<open>
  Claim C7, as stated, fails: the delay is not a function of the layer, the energy and
  the configuration with no clock read inside. \<^verbatim>\<open>createTemporalPressure\<close> takes no
  clock sample; it reads \<^verbatim>\<open>Date.now()\<close> itself, and two calls with the same layer and
  energy in browsers that differ only in the clock give different delays.
\<close>

theorem totalDelay_reads_clock_counterexample:
  "totalDelay CTT_CONFIG (browser_at 0) 0 1 \<noteq> totalDelay CTT_CONFIG (browser_at 1000) 0 1"
proof -
  have "(1::real) < pi" using pi_ge_two by linarith
  then have s: "0 < sin (1::real)" by (simp add: sin_gt_zero)
  have a: "totalDelay CTT_CONFIG (browser_at 0) 0 1 = 2000"
    by (simp add: totalDelay_def primeFactor_CTT_0 browser_at_def)
  have b: "totalDelay CTT_CONFIG (browser_at 1000) 0 1 = 2000 + sin 1 * 50"
    using s by (simp add: totalDelay_def primeFactor_CTT_0 browser_at_def max_def)
  show ?thesis using a b s by simp
qed

text \<open>
  Claim C7, amended. The delay is a function of the layer, the energy, the
  configuration and the clock reading that the method takes from the browser: two
  calls in browsers that agree on \<^verbatim>\<open>Date.now()\<close> return the same delay, whatever else
  differs between the two browsers.
\<close>

theorem totalDelay_depends_on_clock_only:
  "now w1 = now w2 \<Longrightarrow> totalDelay cfg w1 layer energy = totalDelay cfg w2 layer energy"
  by (simp add: totalDelay_def)

theorem totalDelay_depends_on_clock_only_witness:
  "now (browser_at 1000) = now ((browser_at 1000)\<lparr>dom_throws := True, has_Worker := False\<rparr>)
   \<and> browser_at 1000 \<noteq> (browser_at 1000)\<lparr>dom_throws := True, has_Worker := False\<rparr>
   \<and> totalDelay CTT_CONFIG (browser_at 1000) 0 1
     = totalDelay CTT_CONFIG ((browser_at 1000)\<lparr>dom_throws := True, has_Worker := False\<rparr>) 0 1"
proof -
  have h: "now (browser_at 1000) = now ((browser_at 1000)\<lparr>dom_throws := True, has_Worker := False\<rparr>)"
    by simp
  have d: "browser_at 1000 \<noteq> (browser_at 1000)\<lparr>dom_throws := True, has_Worker := False\<rparr>"
    by (simp add: browser_at_def)
  show ?thesis
    using h d totalDelay_depends_on_clock_only [OF h, of CTT_CONFIG 0 1] by simp
qed


section \<open>The resonance analysis\<close>

subsection \<open>What the handshake and the analysis leave alone\<close>

lemma attempt_frame:
  "temporalFrequencies (attemptCrossDomainHandshake cfg w st) = temporalFrequencies st"
  "energyLevels (attemptCrossDomainHandshake cfg w st) = energyLevels st"
  "totalEnergy (attemptCrossDomainHandshake cfg w st) = totalEnergy st"
  "resonanceEstablished (attemptCrossDomainHandshake cfg w st) = resonanceEstablished st"
  "activeBridge (attemptCrossDomainHandshake cfg w st) = activeBridge st"
  "stored (attemptCrossDomainHandshake cfg w st) = stored st"
  "fired (attemptCrossDomainHandshake cfg w st) = fired st"
  "listeners (attemptCrossDomainHandshake cfg w st) = listeners st + 1"
  "console (attemptCrossDomainHandshake cfg w st) = console st @ [LogHandshakeAttempt]"
  by (simp_all add: attemptCrossDomainHandshake_def handshakeViaServiceWorker_def
      handshakeViaBroadcastChannel_def handshakeViaSharedWorker_def handshakeViaPostMessage_def)

lemma attempt_sent:
  "sent (attemptCrossDomainHandshake cfg w st) = sent st @ handshakeMessages cfg w st"
  by (simp add: attemptCrossDomainHandshake_def handshakeViaServiceWorker_def
      handshakeViaBroadcastChannel_def handshakeViaSharedWorker_def handshakeViaPostMessage_def
      handshakeMessages_def)

lemma handshakeMessages_cong:
  "totalEnergy st' = totalEnergy st \<Longrightarrow> resonanceEstablished st' = resonanceEstablished st \<Longrightarrow>
   handshakeMessages cfg w st' = handshakeMessages cfg w st"
  by (simp add: handshakeMessages_def)

lemma analyze_frame:
  "temporalFrequencies (analyzeResonancePattern eng cfg w st) = temporalFrequencies st"
  "energyLevels (analyzeResonancePattern eng cfg w st) = energyLevels st"
  "totalEnergy (analyzeResonancePattern eng cfg w st) = totalEnergy st"
  "activeBridge (analyzeResonancePattern eng cfg w st) = activeBridge st"
  "stored (analyzeResonancePattern eng cfg w st) = stored st"
  "fired (analyzeResonancePattern eng cfg w st) = fired st"
  by (simp_all add: analyzeResonancePattern_def attempt_frame)

lemma analyze_flag:
  "resonanceEstablished (analyzeResonancePattern eng cfg w st)
     = (converged eng cfg st \<or> resonanceEstablished st)"
  by (simp add: analyzeResonancePattern_def converged_def attempt_frame)

lemma analyze_listeners:
  "listeners (analyzeResonancePattern eng cfg w st)
     = (if converged eng cfg st then listeners st + 1 else listeners st)"
  by (simp add: analyzeResonancePattern_def converged_def attempt_frame)

lemma analyze_console:
  "console (analyzeResonancePattern eng cfg w st)
     = console st @
       (if converged eng cfg st
        then [LogResonanceEstablished (avgDeviation eng cfg st), LogHandshakeAttempt]
        else [LogResonanceIncomplete (avgDeviation eng cfg st)])"
  by (simp add: analyzeResonancePattern_def converged_def attempt_frame)

lemma analyze_sent:
  "sent (analyzeResonancePattern eng cfg w st)
     = sent st @
       (if converged eng cfg st
        then handshakeMessages cfg w (analyzeResonancePattern eng cfg w st) else [])"
proof (cases "converged eng cfg st")
  case True
  have "handshakeMessages cfg w (analyzeResonancePattern eng cfg w st)
      = handshakeMessages cfg w
          (st\<lparr>console := console st @ [LogResonanceEstablished (avgDeviation eng cfg st)],
              resonanceEstablished := True\<rparr>)"
    using True by (intro handshakeMessages_cong) (simp_all add: analyze_frame analyze_flag)
  then show ?thesis
    using True by (simp add: analyzeResonancePattern_def converged_def attempt_sent)
next
  case False
  then show ?thesis by (simp add: analyzeResonancePattern_def converged_def)
qed

subsection \<open>The aggregate deviation\<close>

lemma collectFrequencies_qualifying:
  "collectFrequencies eng cfg st tf
     = map (\<lambda>(layer, delays). frequencyOf eng cfg st layer delays) (qualifying tf)"
  by (induction tf) (auto simp: qualifying_def)

lemma f_deviation_frequencyOf:
  "f_deviation (frequencyOf eng cfg st layer delays) = spec_deviation eng cfg (layer, delays)"
  by (simp add: frequencyOf_def spec_deviation_def expected_def Let_def)

lemma f_layer_frequencyOf: "f_layer (frequencyOf eng cfg st layer delays) = layer"
  by (simp add: frequencyOf_def Let_def)

lemma deviations_collect:
  "map f_deviation (collectFrequencies eng cfg st tf) = map (spec_deviation eng cfg) (qualifying tf)"
  by (simp add: collectFrequencies_qualifying f_deviation_frequencyOf split_def comp_def)

lemma layers_collect:
  "map f_layer (collectFrequencies eng cfg st tf) = map fst (qualifying tf)"
  by (simp add: collectFrequencies_qualifying f_layer_frequencyOf split_def comp_def)

lemma foldl_deviation_map:
  "foldl (\<lambda>sum f. js_add eng sum (f_deviation f)) a fs = foldl (js_add eng) a (map f_deviation fs)"
  by (induction fs arbitrary: a) simp_all

lemma avgDeviation_qualifying:
  "avgDeviation eng cfg st = spec_aggregate eng cfg (temporalFrequencies st)"
proof -
  have len: "length (collectFrequencies eng cfg st tf) = length (qualifying tf)" for tf
    by (simp add: collectFrequencies_qualifying)
  show ?thesis
    by (simp add: avgDeviation_def spec_aggregate_def Let_def len foldl_deviation_map
        deviations_collect)
qed

lemma qualifying_idem: "qualifying (qualifying tf) = qualifying tf"
  by (simp add: qualifying_def)

lemma spec_aggregate_qualifying: "spec_aggregate eng cfg (qualifying tf) = spec_aggregate eng cfg tf"
  by (simp add: spec_aggregate_def qualifying_idem)

lemma spec_aggregate_none: "qualifying tf = [] \<Longrightarrow> spec_aggregate eng cfg tf = NaN"
  by (simp add: spec_aggregate_def)

lemma avgDeviation_cong:
  "temporalFrequencies st' = temporalFrequencies st \<Longrightarrow>
   avgDeviation eng cfg st' = avgDeviation eng cfg st"
  by (simp add: avgDeviation_qualifying)

lemma converged_cong:
  "temporalFrequencies st' = temporalFrequencies st \<Longrightarrow>
   converged eng cfg st' = converged eng cfg st"
  by (simp add: converged_def avgDeviation_qualifying)

lemma analyze_no_qualifying:
  "qualifying (temporalFrequencies st) = [] \<Longrightarrow>
   analyzeResonancePattern eng cfg w st = st\<lparr>console := console st @ [LogResonanceIncomplete NaN]\<rparr>"
  by (simp add: avgDeviation_qualifying analyzeResonancePattern_def spec_aggregate_none)

lemma analyze_qualifying:
  "analyzeResonancePattern eng cfg w st
     = (analyzeResonancePattern eng cfg w
          (st\<lparr>temporalFrequencies := qualifying (temporalFrequencies st)\<rparr>))
        \<lparr>temporalFrequencies := temporalFrequencies st\<rparr>"
proof -
  have a: "avgDeviation eng cfg (st\<lparr>temporalFrequencies := qualifying (temporalFrequencies st)\<rparr>)
      = avgDeviation eng cfg st"
    by (simp add: avgDeviation_qualifying spec_aggregate_qualifying)
  show ?thesis
    unfolding analyzeResonancePattern_def a
    by (simp add: attemptCrossDomainHandshake_def handshakeViaServiceWorker_def
        handshakeViaBroadcastChannel_def handshakeViaSharedWorker_def handshakeViaPostMessage_def)
qed

text \<open>
  Claim C9. The analysis leaves every layer with fewer than two samples out of the
  aggregate: the frequencies it collects are those of the layers with two samples or
  more, the aggregate deviation is the mean of the relative deviations of these
  layers, and dropping the other layers from the map before the analysis changes
  neither the aggregate nor what the analysis does. The verdict is computed from this
  aggregate alone: the analysis sets \<^verbatim>\<open>resonanceEstablished\<close>, reports "established"
  and attempts the handshake exactly when the aggregate is below a tenth, and reports
  "incomplete" otherwise. When no layer qualifies the aggregate is \<^verbatim>\<open>NaN\<close>, the test
  \<^verbatim>\<open>avgDeviation < 0.1\<close> is false, and the analysis returns normally with nothing
  changed but one console line (resonance incomplete).
\<close>

theorem analysis_excludes_single_samples:
  "map f_layer (collectFrequencies eng cfg st (temporalFrequencies st))
     = map fst (qualifying (temporalFrequencies st))
   \<and> avgDeviation eng cfg st = spec_aggregate eng cfg (temporalFrequencies st)
   \<and> avgDeviation eng cfg st
       = avgDeviation eng cfg (st\<lparr>temporalFrequencies := qualifying (temporalFrequencies st)\<rparr>)
   \<and> analyzeResonancePattern eng cfg w st
       = (analyzeResonancePattern eng cfg w
            (st\<lparr>temporalFrequencies := qualifying (temporalFrequencies st)\<rparr>))
          \<lparr>temporalFrequencies := temporalFrequencies st\<rparr>
   \<and> converged eng cfg st
       = js_less (spec_aggregate eng cfg (temporalFrequencies st)) (Fin (fl eng (1 / 10)))
   \<and> resonanceEstablished (analyzeResonancePattern eng cfg w st)
       = (js_less (spec_aggregate eng cfg (temporalFrequencies st)) (Fin (fl eng (1 / 10)))
          \<or> resonanceEstablished st)
   \<and> console (analyzeResonancePattern eng cfg w st)
       = console st @
         (if js_less (spec_aggregate eng cfg (temporalFrequencies st)) (Fin (fl eng (1 / 10)))
          then [LogResonanceEstablished (spec_aggregate eng cfg (temporalFrequencies st)),
                LogHandshakeAttempt]
          else [LogResonanceIncomplete (spec_aggregate eng cfg (temporalFrequencies st))])
   \<and> listeners (analyzeResonancePattern eng cfg w st)
       = (if js_less (spec_aggregate eng cfg (temporalFrequencies st)) (Fin (fl eng (1 / 10)))
          then listeners st + 1 else listeners st)
   \<and> (qualifying (temporalFrequencies st) = [] \<longrightarrow>
        avgDeviation eng cfg st = NaN \<and> \<not> converged eng cfg st
        \<and> analyzeResonancePattern eng cfg w st
            = st\<lparr>console := console st @ [LogResonanceIncomplete NaN]\<rparr>)"
proof (intro conjI impI)
  show "map f_layer (collectFrequencies eng cfg st (temporalFrequencies st))
      = map fst (qualifying (temporalFrequencies st))"
    by (rule layers_collect)
  show "avgDeviation eng cfg st = spec_aggregate eng cfg (temporalFrequencies st)"
    by (rule avgDeviation_qualifying)
  show "avgDeviation eng cfg st
      = avgDeviation eng cfg (st\<lparr>temporalFrequencies := qualifying (temporalFrequencies st)\<rparr>)"
    by (simp add: avgDeviation_qualifying spec_aggregate_qualifying)
  show "analyzeResonancePattern eng cfg w st
       = (analyzeResonancePattern eng cfg w
            (st\<lparr>temporalFrequencies := qualifying (temporalFrequencies st)\<rparr>))
          \<lparr>temporalFrequencies := temporalFrequencies st\<rparr>"
    by (rule analyze_qualifying)
  show "converged eng cfg st
       = js_less (spec_aggregate eng cfg (temporalFrequencies st)) (Fin (fl eng (1 / 10)))"
    by (simp add: converged_def avgDeviation_qualifying)
  show "resonanceEstablished (analyzeResonancePattern eng cfg w st)
       = (js_less (spec_aggregate eng cfg (temporalFrequencies st)) (Fin (fl eng (1 / 10)))
          \<or> resonanceEstablished st)"
    by (simp add: analyze_flag converged_def avgDeviation_qualifying)
  show "console (analyzeResonancePattern eng cfg w st)
       = console st @
         (if js_less (spec_aggregate eng cfg (temporalFrequencies st)) (Fin (fl eng (1 / 10)))
          then [LogResonanceEstablished (spec_aggregate eng cfg (temporalFrequencies st)),
                LogHandshakeAttempt]
          else [LogResonanceIncomplete (spec_aggregate eng cfg (temporalFrequencies st))])"
    by (simp add: analyze_console converged_def avgDeviation_qualifying)
  show "listeners (analyzeResonancePattern eng cfg w st)
       = (if js_less (spec_aggregate eng cfg (temporalFrequencies st)) (Fin (fl eng (1 / 10)))
          then listeners st + 1 else listeners st)"
    by (simp add: analyze_listeners converged_def avgDeviation_qualifying)
next
  assume q: "qualifying (temporalFrequencies st) = []"
  show "avgDeviation eng cfg st = NaN"
    using q by (simp add: avgDeviation_qualifying spec_aggregate_none)
  then show "\<not> converged eng cfg st"
    by (simp add: converged_def)
  show "analyzeResonancePattern eng cfg w st
      = st\<lparr>console := console st @ [LogResonanceIncomplete NaN]\<rparr>"
    using q by (rule analyze_no_qualifying)
qed

lemma fresh_fields:
  "temporalFrequencies (CTT_CrossSyncVortex eng cfg) = []"
  "console (CTT_CrossSyncVortex eng cfg) = []"
  "sent (CTT_CrossSyncVortex eng cfg) = []"
  "listeners (CTT_CrossSyncVortex eng cfg) = 0"
  "activeBridge (CTT_CrossSyncVortex eng cfg) = None"
  "stored (CTT_CrossSyncVortex eng cfg) = None"
  "fired (CTT_CrossSyncVortex eng cfg) = []"
  "\<not> resonanceEstablished (CTT_CrossSyncVortex eng cfg)"
  "energyLevels (CTT_CrossSyncVortex eng cfg) = computeLevels eng cfg"
  "totalEnergy (CTT_CrossSyncVortex eng cfg) = fsum eng (computeLevels eng cfg)"
  by (simp_all add: CTT_CrossSyncVortex_def)

lemma CTT_last_layer: "LAYERS CTT_CONFIG = 33"
  by (simp add: CTT_CONFIG_def)

lemma tf_one_sample: "temporalFrequencies one_sample = [(0, [2000])]"
  by (simp add: one_sample_def recordFrequency_def CTT_last_layer fresh_fields)

lemma console_one_sample: "console one_sample = []"
  by (simp add: one_sample_def recordFrequency_def CTT_last_layer fresh_fields)

lemma tf_mixed_samples: "temporalFrequencies mixed_samples = [(0, [900, 1100]), (1, [5])]"
  by (simp add: mixed_samples_def recordFrequency_def CTT_last_layer fresh_fields)

lemma console_mixed_samples: "console mixed_samples = []"
  by (simp add: mixed_samples_def recordFrequency_def CTT_last_layer fresh_fields)

lemma expected_CTT_0: "expected binary64 CTT_CONFIG 0 = 1000"
  by (simp add: expected_def decay_binary64_0)

lemma aggregate_mixed_samples:
  "spec_aggregate binary64 CTT_CONFIG [(0, [900, 1100]), (1, [5])] = Fin 0"
  by (simp add: spec_aggregate_def qualifying_def spec_deviation_def expected_CTT_0 fsum_def)

theorem analysis_excludes_single_samples_witness:
  "qualifying (temporalFrequencies one_sample) = []
   \<and> avgDeviation binary64 CTT_CONFIG one_sample = NaN
   \<and> \<not> converged binary64 CTT_CONFIG one_sample
   \<and> console (analyzeResonancePattern binary64 CTT_CONFIG (browser_at 0) one_sample)
       = [LogResonanceIncomplete NaN]
   \<and> qualifying (temporalFrequencies mixed_samples) = [(0, [900, 1100])]
   \<and> map f_layer (collectFrequencies binary64 CTT_CONFIG mixed_samples
        (temporalFrequencies mixed_samples)) = [0]
   \<and> avgDeviation binary64 CTT_CONFIG mixed_samples = Fin 0
   \<and> converged binary64 CTT_CONFIG mixed_samples
   \<and> resonanceEstablished (analyzeResonancePattern binary64 CTT_CONFIG (browser_at 0) mixed_samples)
   \<and> console (analyzeResonancePattern binary64 CTT_CONFIG (browser_at 0) mixed_samples)
       = [LogResonanceEstablished (Fin 0), LogHandshakeAttempt]"
proof -
  have q1: "qualifying (temporalFrequencies one_sample) = []"
    by (simp add: tf_one_sample qualifying_def)
  have q2: "qualifying (temporalFrequencies mixed_samples) = [(0, [900, 1100])]"
    by (simp add: tf_mixed_samples qualifying_def)
  have g: "spec_aggregate binary64 CTT_CONFIG (temporalFrequencies mixed_samples) = Fin 0"
    unfolding tf_mixed_samples by (rule aggregate_mixed_samples)
  have t: "js_less (Fin 0) (Fin (fl binary64 (1 / 10)))"
    using round64_tenth_pos by simp
  note A = analysis_excludes_single_samples [of binary64 CTT_CONFIG one_sample "browser_at 0"]
  note B = analysis_excludes_single_samples [of binary64 CTT_CONFIG mixed_samples "browser_at 0",
      unfolded g]
  have a1: "avgDeviation binary64 CTT_CONFIG one_sample = NaN
      \<and> \<not> converged binary64 CTT_CONFIG one_sample
      \<and> analyzeResonancePattern binary64 CTT_CONFIG (browser_at 0) one_sample
          = one_sample\<lparr>console := console one_sample @ [LogResonanceIncomplete NaN]\<rparr>"
    using A q1 by blast
  then have a2: "console (analyzeResonancePattern binary64 CTT_CONFIG (browser_at 0) one_sample)
      = [LogResonanceIncomplete NaN]"
    by (simp add: console_one_sample)
  have "map f_layer (collectFrequencies binary64 CTT_CONFIG mixed_samples
        (temporalFrequencies mixed_samples))
      = map fst (qualifying (temporalFrequencies mixed_samples))"
    using B by (rule conjunct1)
  then have b1: "map f_layer (collectFrequencies binary64 CTT_CONFIG mixed_samples
        (temporalFrequencies mixed_samples)) = [0]"
    by (simp add: q2)
  have b2: "avgDeviation binary64 CTT_CONFIG mixed_samples = Fin 0"
    using B by blast
  have b3: "converged binary64 CTT_CONFIG mixed_samples = js_less (Fin 0) (Fin (fl binary64 (1 / 10)))"
    using B by blast
  have b4: "resonanceEstablished (analyzeResonancePattern binary64 CTT_CONFIG (browser_at 0) mixed_samples)
      = (js_less (Fin 0) (Fin (fl binary64 (1 / 10))) \<or> resonanceEstablished mixed_samples)"
    using B by blast
  have b5: "console (analyzeResonancePattern binary64 CTT_CONFIG (browser_at 0) mixed_samples)
       = console mixed_samples @
         (if js_less (Fin 0) (Fin (fl binary64 (1 / 10)))
          then [LogResonanceEstablished (Fin 0), LogHandshakeAttempt]
          else [LogResonanceIncomplete (Fin 0)])"
    using B by blast
  show ?thesis
    using q1 q2 a1 a2 b1 b2 b3 b4 b5 t by (simp add: console_mixed_samples)
qed

subsection \<open>One sample for each layer\<close>

lemma pushDelay_fresh:
  "layer \<notin> fst ` set tf \<Longrightarrow> pushDelay tf layer delay = tf @ [(layer, [delay])]"
  by (induction tf) auto

lemma qualifying_singles: "qualifying (map (\<lambda>d. (d, [g d])) ds) = []"
  by (simp add: qualifying_def filter_map comp_def)

lemma recordFrequency_fresh_single:
  assumes "temporalFrequencies st = map (\<lambda>d. (d, [g d])) [0..<k]"
  shows "recordFrequency eng cfg w st k (g k) =
     (if int k = LAYERS cfg - 1
      then st\<lparr>temporalFrequencies := map (\<lambda>d. (d, [g d])) [0..<Suc k],
              console := console st @ [LogResonanceIncomplete NaN]\<rparr>
      else st\<lparr>temporalFrequencies := map (\<lambda>d. (d, [g d])) [0..<Suc k]\<rparr>)"
proof -
  let ?tf = "map (\<lambda>d. (d, [g d])) [0..<Suc k]"
  have "k \<notin> fst ` set (map (\<lambda>d. (d, [g d])) [0..<k])"
    by auto
  then have p: "pushDelay (temporalFrequencies st) k (g k) = ?tf"
    by (simp add: assms pushDelay_fresh)
  have "qualifying (temporalFrequencies (st\<lparr>temporalFrequencies := ?tf\<rparr>)) = []"
    using qualifying_singles [of g "[0..<Suc k]"] by (simp del: upt_Suc)
  then have a: "analyzeResonancePattern eng cfg w (st\<lparr>temporalFrequencies := ?tf\<rparr>)
      = st\<lparr>temporalFrequencies := ?tf, console := console st @ [LogResonanceIncomplete NaN]\<rparr>"
    by (simp del: upt_Suc add: analyze_no_qualifying)
  show ?thesis
    unfolding recordFrequency_def p Let_def using a by (simp del: upt_Suc)
qed

lemma record_each_once:
  "n \<le> nat (LAYERS cfg) \<Longrightarrow>
   temporalFrequencies (foldl (\<lambda>st d. recordFrequency eng cfg w st d (g d))
       (CTT_CrossSyncVortex eng cfg) [0..<n])
     = map (\<lambda>d. (d, [g d])) [0..<n]
   \<and> \<not> resonanceEstablished (foldl (\<lambda>st d. recordFrequency eng cfg w st d (g d))
       (CTT_CrossSyncVortex eng cfg) [0..<n])
   \<and> console (foldl (\<lambda>st d. recordFrequency eng cfg w st d (g d))
       (CTT_CrossSyncVortex eng cfg) [0..<n])
     = (if n = nat (LAYERS cfg) \<and> 0 < n then [LogResonanceIncomplete NaN] else [])"
proof (induction n)
  case 0
  then show ?case by (simp add: CTT_CrossSyncVortex_def)
next
  case (Suc n)
  let ?st = "foldl (\<lambda>st d. recordFrequency eng cfg w st d (g d)) (CTT_CrossSyncVortex eng cfg) [0..<n]"
  from Suc have IH: "temporalFrequencies ?st = map (\<lambda>d. (d, [g d])) [0..<n]"
    "\<not> resonanceEstablished ?st" "console ?st = []"
    by auto
  have last: "int n = LAYERS cfg - 1 \<longleftrightarrow> Suc n = nat (LAYERS cfg)"
    using Suc.prems by linarith
  have step: "foldl (\<lambda>st d. recordFrequency eng cfg w st d (g d)) (CTT_CrossSyncVortex eng cfg) [0..<Suc n]
      = recordFrequency eng cfg w ?st n (g n)"
    by simp
  show ?case
    unfolding step recordFrequency_fresh_single [OF IH(1)]
    using IH(2,3) by (simp del: upt_Suc add: last)
qed

lemma fields_exact_single_run:
  "temporalFrequencies exact_single_run = map (\<lambda>d. (d, [expected binary64 CTT_CONFIG d])) [0..<33]"
  "\<not> resonanceEstablished exact_single_run"
  "console exact_single_run = [LogResonanceIncomplete NaN]"
proof -
  have n: "33 \<le> nat (LAYERS CTT_CONFIG)" by (simp add: CTT_CONFIG_def)
  note R = record_each_once [OF n, of binary64 "browser_at 0" "expected binary64 CTT_CONFIG",
      folded exact_single_run_def]
  from R show "temporalFrequencies exact_single_run
      = map (\<lambda>d. (d, [expected binary64 CTT_CONFIG d])) [0..<33]"
    by blast
  from R show "\<not> resonanceEstablished exact_single_run"
    by blast
  from R show "console exact_single_run = [LogResonanceIncomplete NaN]"
    by (simp add: CTT_layers)
qed

text \<open>
  Claim C2, as stated, fails: when each of the 33 layers reports one observed delay,
  equal to its expected value, no layer has more than one sample when the analysis
  runs (on the report of layer 32); the aggregate deviation is \<^verbatim>\<open>NaN\<close>, not 0, and
  \<^verbatim>\<open>resonanceEstablished\<close> stays false.
\<close>

theorem single_exact_run_counterexample:
  "map fst (temporalFrequencies exact_single_run) = [0..<33]
   \<and> avgDeviation binary64 CTT_CONFIG exact_single_run = NaN
   \<and> \<not> converged binary64 CTT_CONFIG exact_single_run
   \<and> \<not> resonanceEstablished exact_single_run
   \<and> console exact_single_run = [LogResonanceIncomplete NaN]"
proof -
  have q: "qualifying (temporalFrequencies exact_single_run) = []"
    by (simp add: fields_exact_single_run qualifying_singles)
  have a: "avgDeviation binary64 CTT_CONFIG exact_single_run = NaN"
    using q by (simp add: avgDeviation_qualifying spec_aggregate_none)
  show ?thesis
    using a by (simp add: fields_exact_single_run converged_def comp_def)
qed

subsection \<open>Two exact samples for each layer\<close>

lemma pushDelay_present:
  "distinct ds \<Longrightarrow> k \<in> set ds \<Longrightarrow>
   pushDelay (map (\<lambda>d. (d, f d)) ds) k x = map (\<lambda>d. (d, if d = k then f d @ [x] else f d)) ds"
proof (induction ds)
  case Nil
  then show ?case by simp
next
  case (Cons d ds)
  show ?case
  proof (cases "d = k")
    case True
    then have "k \<notin> set ds" using Cons.prems(1) by simp
    then have "map (\<lambda>d. (d, if d = k then f d @ [x] else f d)) ds = map (\<lambda>d. (d, f d)) ds"
      by (intro map_cong) auto
    then show ?thesis using True by simp
  next
    case False
    then show ?thesis using Cons by simp
  qed
qed

text \<open>A second report for each of the first \<open>k\<close> layers, the last layer not among them.\<close>

lemma record_second_round:
  assumes "temporalFrequencies st = map (\<lambda>d. (d, [g d])) [0..<nat (LAYERS cfg)]"
  shows "k < nat (LAYERS cfg) \<Longrightarrow>
     foldl (\<lambda>st d. recordFrequency eng cfg w st d (g d)) st [0..<k]
       = st\<lparr>temporalFrequencies :=
            map (\<lambda>d. (d, if d < k then [g d, g d] else [g d])) [0..<nat (LAYERS cfg)]\<rparr>"
proof (induction k)
  case 0
  then show ?case using assms by simp
next
  case (Suc k)
  let ?n = "nat (LAYERS cfg)"
  let ?f = "\<lambda>d. if d < k then [g d, g d] else [g d]"
  have k: "k < ?n" using Suc.prems by simp
  have nl: "int k \<noteq> LAYERS cfg - 1" using Suc.prems by linarith
  have p: "pushDelay (map (\<lambda>d. (d, ?f d)) [0..<?n]) k (g k)
      = map (\<lambda>d. (d, if d = k then ?f d @ [g k] else ?f d)) [0..<?n]"
    using k by (intro pushDelay_present) simp_all
  have m: "map (\<lambda>d. (d, if d = k then ?f d @ [g k] else ?f d)) [0..<?n]
      = map (\<lambda>d. (d, if d < Suc k then [g d, g d] else [g d])) [0..<?n]"
    by (intro map_cong) auto
  show ?case
    using Suc.IH [OF k] nl by (simp add: recordFrequency_def p m)
qed

text \<open>A second report for every layer: on the last of them the analysis runs.\<close>

lemma record_second_last:
  assumes "temporalFrequencies st = map (\<lambda>d. (d, [g d])) [0..<nat (LAYERS cfg)]"
    and "nat (LAYERS cfg) = Suc k"
  shows "foldl (\<lambda>st d. recordFrequency eng cfg w st d (g d)) st [0..<Suc k]
       = analyzeResonancePattern eng cfg w
           (st\<lparr>temporalFrequencies := map (\<lambda>d. (d, [g d, g d])) [0..<Suc k]\<rparr>)"
proof -
  let ?f = "\<lambda>d. if d < k then [g d, g d] else [g d]"
  have k: "k < nat (LAYERS cfg)" using assms(2) by simp
  have l: "int k = LAYERS cfg - 1" using assms(2) by linarith
  have p: "pushDelay (map (\<lambda>d. (d, ?f d)) [0..<Suc k]) k (g k)
      = map (\<lambda>d. (d, if d = k then ?f d @ [g k] else ?f d)) [0..<Suc k]"
    by (intro pushDelay_present) simp_all
  have m: "map (\<lambda>d. (d, if d = k then ?f d @ [g k] else ?f d)) [0..<Suc k]
      = map (\<lambda>d. (d, [g d, g d])) [0..<Suc k]"
    by (intro map_cong) auto
  have "foldl (\<lambda>st d. recordFrequency eng cfg w st d (g d)) st [0..<Suc k]
      = recordFrequency eng cfg w (foldl (\<lambda>st d. recordFrequency eng cfg w st d (g d)) st [0..<k]) k (g k)"
    by simp
  also have "\<dots> = recordFrequency eng cfg w
      (st\<lparr>temporalFrequencies := map (\<lambda>d. (d, ?f d)) [0..<Suc k]\<rparr>) k (g k)"
    unfolding record_second_round [OF assms(1) k] assms(2) ..
  also have "\<dots> = analyzeResonancePattern eng cfg w
           (st\<lparr>temporalFrequencies := map (\<lambda>d. (d, [g d, g d])) [0..<Suc k]\<rparr>)"
    unfolding recordFrequency_def Let_def using l p m by (simp del: upt_Suc)
  finally show ?thesis .
qed

lemma exact_two_rounds_analysis:
  "exact_two_rounds = analyzeResonancePattern binary64 CTT_CONFIG (browser_at 0) exact_twice"
proof -
  have n: "nat (LAYERS CTT_CONFIG) = Suc 32" by (simp add: CTT_CONFIG_def)
  have s: "Suc 32 = 33" by simp
  have t: "temporalFrequencies exact_single_run
      = map (\<lambda>d. (d, [expected binary64 CTT_CONFIG d])) [0..<nat (LAYERS CTT_CONFIG)]"
    unfolding n s by (rule fields_exact_single_run)
  show ?thesis
    unfolding exact_two_rounds_def exact_twice_def
    using record_second_last [OF t n, of binary64 "browser_at 0"] unfolding s .
qed

lemma expected_fixed: "round64 (expected binary64 cfg layer) = expected binary64 cfg layer"
  by (simp add: expected_def round64_idem)

lemma fsum_pair:
  assumes "round64 e = e"
  shows "fsum binary64 [e, e] = 2 * e"
proof -
  have "fsum binary64 [e, e] = round64 (round64 e + e)"
    by (simp add: fsum_def)
  also have "\<dots> = round64 (2 * e)"
    by (simp add: assms)
  also have "\<dots> = 2 * e"
    using assms by (rule round64_double)
  finally show ?thesis .
qed

lemma spec_deviation_exact_pair:
  assumes "expected binary64 cfg layer \<noteq> 0"
  shows "spec_deviation binary64 cfg
           (layer, [expected binary64 cfg layer, expected binary64 cfg layer]) = Fin 0"
proof -
  let ?e = "expected binary64 cfg layer"
  have s: "fsum binary64 [?e, ?e] = 2 * ?e"
    by (rule fsum_pair) (rule expected_fixed)
  have "fsum binary64 [?e, ?e] / real (length [?e, ?e]) = ?e"
    unfolding s by simp
  then have "fl binary64 (fsum binary64 [?e, ?e] / real (length [?e, ?e])) = ?e"
    by (simp only: binary64_simps expected_fixed)
  then show ?thesis
    unfolding spec_deviation_def using assms by simp
qed

lemma foldl_js_add_zeros:
  "\<forall>x \<in> set xs. x = Fin 0 \<Longrightarrow> foldl (js_add binary64) (Fin 0) xs = Fin 0"
  by (induction xs) simp_all

text \<open>
  Claim C2, amended. In binary64, for a decay constant that is not negative (the
  expected values are then at most 1000, far from the overflow that the model leaves
  out): when at least one layer has two samples or more, and each such layer has
  exactly two samples, both equal to its expected value (the level of the layer times
  1000, as the analysis computes it), which is not 0, then the aggregate deviation is
  0 and the analysis sets \<^verbatim>\<open>resonanceEstablished\<close>. The witness is the run in which
  each of the 33 layers reports its expected value twice: the analysis of the first
  round is incomplete, that of the second establishes the resonance.
\<close>

theorem exact_samples_converge:
  assumes "0 \<le> ALPHA cfg"
    and "qualifying (temporalFrequencies st) \<noteq> []"
    and "\<forall>(layer, delays) \<in> set (qualifying (temporalFrequencies st)).
           delays = [expected binary64 cfg layer, expected binary64 cfg layer]
           \<and> expected binary64 cfg layer \<noteq> 0"
  shows "avgDeviation binary64 cfg st = Fin 0 \<and> converged binary64 cfg st
       \<and> resonanceEstablished (analyzeResonancePattern binary64 cfg w st)"
proof -
  have "spec_deviation binary64 cfg e = Fin 0"
    if "e \<in> set (qualifying (temporalFrequencies st))" for e
  proof -
    obtain layer delays where e: "e = (layer, delays)" by (cases e)
    have "delays = [expected binary64 cfg layer, expected binary64 cfg layer]
        \<and> expected binary64 cfg layer \<noteq> 0"
      using assms(3) that e by auto
    then show ?thesis unfolding e by (simp add: spec_deviation_exact_pair)
  qed
  then have "\<forall>x \<in> set (map (spec_deviation binary64 cfg) (qualifying (temporalFrequencies st))).
      x = Fin 0"
    by auto
  then have "foldl (js_add binary64) (Fin 0)
      (map (spec_deviation binary64 cfg) (qualifying (temporalFrequencies st))) = Fin 0"
    by (rule foldl_js_add_zeros)
  moreover have "real (length (qualifying (temporalFrequencies st))) \<noteq> 0"
    using assms(2) by simp
  ultimately have a: "avgDeviation binary64 cfg st = Fin 0"
    by (simp add: avgDeviation_qualifying spec_aggregate_def)
  then have c: "converged binary64 cfg st"
    using round64_tenth_pos by (simp add: converged_def)
  show ?thesis using a c by (simp add: analyze_flag)
qed

lemma round64_m1: "round64 (- 1) = - 1"
  using round64_uminus [of 1] by simp

lemma exp_m1_quarter: "1 / 4 \<le> exp (- 1 :: real)"
proof -
  have "exp (1::real) \<le> 3" by (rule exp_le)
  then have "inverse 3 \<le> inverse (exp (1::real))"
    by (intro le_imp_inverse_le) simp_all
  then show ?thesis by (simp add: exp_minus)
qed

lemma expected_CTT_pos:
  assumes "d < 33"
  shows "250 \<le> expected binary64 CTT_CONFIG d"
proof -
  have "real d \<le> 32" using assms by simp
  then have "ALPHA CTT_CONFIG * real d \<le> 1" by (simp add: CTT_CONFIG_def)
  then have "- 1 \<le> - ALPHA CTT_CONFIG * real d" by simp
  then have "round64 (- 1) \<le> round64 (- ALPHA CTT_CONFIG * real d)" by (rule round64_mono)
  then have "exp (- 1) \<le> exp (round64 (- ALPHA CTT_CONFIG * real d))"
    by (simp only: round64_m1 exp_le_cancel_iff)
  then have "1 / 4 \<le> exp (round64 (- ALPHA CTT_CONFIG * real d))"
    using exp_m1_quarter by linarith
  then have "round64 (1 / 4) \<le> round64 (exp (round64 (- ALPHA CTT_CONFIG * real d)))"
    by (rule round64_mono)
  then have "1 / 4 \<le> decay binary64 CTT_CONFIG d"
    by (simp only: round64_quarter decay_def binary64_simps)
  then have "250 \<le> decay binary64 CTT_CONFIG d * 1000" by simp
  then have "round64 250 \<le> round64 (decay binary64 CTT_CONFIG d * 1000)" by (rule round64_mono)
  then show ?thesis by (simp add: expected_def)
qed

lemma qualifying_exact_twice:
  "qualifying (temporalFrequencies exact_twice) = temporalFrequencies exact_twice"
  by (simp add: exact_twice_def qualifying_def filter_map comp_def)

theorem exact_samples_converge_witness:
  "0 \<le> ALPHA CTT_CONFIG
   \<and> map fst (qualifying (temporalFrequencies exact_twice)) = [0..<33]
   \<and> avgDeviation binary64 CTT_CONFIG exact_twice = Fin 0
   \<and> converged binary64 CTT_CONFIG exact_twice
   \<and> exact_two_rounds = analyzeResonancePattern binary64 CTT_CONFIG (browser_at 0) exact_twice
   \<and> resonanceEstablished exact_two_rounds
   \<and> console exact_two_rounds
       = [LogResonanceIncomplete NaN, LogResonanceEstablished (Fin 0), LogHandshakeAttempt]"
proof -
  have h0: "0 \<le> ALPHA CTT_CONFIG" by (simp add: CTT_CONFIG_def)
  have l: "map fst (qualifying (temporalFrequencies exact_twice)) = [0..<33]"
    unfolding qualifying_exact_twice by (simp add: exact_twice_def comp_def)
  have h1: "qualifying (temporalFrequencies exact_twice) \<noteq> []"
    unfolding qualifying_exact_twice by (simp add: exact_twice_def)
  have nz: "expected binary64 CTT_CONFIG d \<noteq> 0" if "d < 33" for d
    using expected_CTT_pos [OF that] by simp
  have h2: "\<forall>(layer, delays) \<in> set (qualifying (temporalFrequencies exact_twice)).
           delays = [expected binary64 CTT_CONFIG layer, expected binary64 CTT_CONFIG layer]
           \<and> expected binary64 CTT_CONFIG layer \<noteq> 0"
    unfolding qualifying_exact_twice using nz by (auto simp: exact_twice_def)
  note T = exact_samples_converge [OF h0 h1 h2, of "browser_at 0",
      folded exact_two_rounds_analysis]
  have c: "console exact_twice = [LogResonanceIncomplete NaN]"
    by (simp add: exact_twice_def fields_exact_single_run)
  have k: "console exact_two_rounds
       = [LogResonanceIncomplete NaN, LogResonanceEstablished (Fin 0), LogHandshakeAttempt]"
    unfolding exact_two_rounds_analysis analyze_console using T by (simp add: c)
  show ?thesis
    using h0 l T k exact_two_rounds_analysis by simp
qed

subsection \<open>Analysing twice\<close>

text \<open>
  Claim C4, amended. \<^verbatim>\<open>analyzeResonancePattern\<close> returns nothing and caches nothing. A
  second call with no sample recorded in between computes the same aggregate deviation
  and the same decision as the first, and leaves the fields of the object
  (\<^verbatim>\<open>temporalFrequencies\<close>, \<^verbatim>\<open>resonanceEstablished\<close>, the energy levels, the total
  energy, the active bridge) as the first call left them; but it writes the line of
  its decision to the console again and, when the decision is "converged", runs
  \<^verbatim>\<open>attemptCrossDomainHandshake\<close> again, which registers one more \<^verbatim>\<open>message\<close>
  listener and sends the handshake messages again on every channel that is there.
  When the decision is "not converged" the second call registers and sends nothing.
\<close>

theorem analysis_twice:
  "avgDeviation eng cfg (analyzeResonancePattern eng cfg w st) = avgDeviation eng cfg st
   \<and> converged eng cfg (analyzeResonancePattern eng cfg w st) = converged eng cfg st
   \<and> temporalFrequencies (analyzeResonancePattern eng cfg w' (analyzeResonancePattern eng cfg w st))
       = temporalFrequencies (analyzeResonancePattern eng cfg w st)
   \<and> resonanceEstablished (analyzeResonancePattern eng cfg w' (analyzeResonancePattern eng cfg w st))
       = resonanceEstablished (analyzeResonancePattern eng cfg w st)
   \<and> energyLevels (analyzeResonancePattern eng cfg w' (analyzeResonancePattern eng cfg w st))
       = energyLevels (analyzeResonancePattern eng cfg w st)
   \<and> totalEnergy (analyzeResonancePattern eng cfg w' (analyzeResonancePattern eng cfg w st))
       = totalEnergy (analyzeResonancePattern eng cfg w st)
   \<and> activeBridge (analyzeResonancePattern eng cfg w' (analyzeResonancePattern eng cfg w st))
       = activeBridge (analyzeResonancePattern eng cfg w st)
   \<and> (converged eng cfg st \<longrightarrow>
        listeners (analyzeResonancePattern eng cfg w' (analyzeResonancePattern eng cfg w st))
          = listeners (analyzeResonancePattern eng cfg w st) + 1
        \<and> sent (analyzeResonancePattern eng cfg w' (analyzeResonancePattern eng cfg w st))
          = sent (analyzeResonancePattern eng cfg w st)
            @ handshakeMessages cfg w' (analyzeResonancePattern eng cfg w st)
        \<and> console (analyzeResonancePattern eng cfg w' (analyzeResonancePattern eng cfg w st))
          = console (analyzeResonancePattern eng cfg w st)
            @ [LogResonanceEstablished (avgDeviation eng cfg st), LogHandshakeAttempt])
   \<and> (\<not> converged eng cfg st \<longrightarrow>
        listeners (analyzeResonancePattern eng cfg w' (analyzeResonancePattern eng cfg w st))
          = listeners (analyzeResonancePattern eng cfg w st)
        \<and> sent (analyzeResonancePattern eng cfg w' (analyzeResonancePattern eng cfg w st))
          = sent (analyzeResonancePattern eng cfg w st)
        \<and> console (analyzeResonancePattern eng cfg w' (analyzeResonancePattern eng cfg w st))
          = console (analyzeResonancePattern eng cfg w st)
            @ [LogResonanceIncomplete (avgDeviation eng cfg st)])
   \<and> length (console (analyzeResonancePattern eng cfg w st))
       < length (console (analyzeResonancePattern eng cfg w' (analyzeResonancePattern eng cfg w st)))"
proof -
  let ?s1 = "analyzeResonancePattern eng cfg w st"
  let ?s2 = "analyzeResonancePattern eng cfg w' ?s1"
  have c: "converged eng cfg ?s1 = converged eng cfg st"
    by (rule converged_cong) (rule analyze_frame)
  have a: "avgDeviation eng cfg ?s1 = avgDeviation eng cfg st"
    by (rule avgDeviation_cong) (rule analyze_frame)
  have f: "temporalFrequencies ?s2 = temporalFrequencies ?s1" "energyLevels ?s2 = energyLevels ?s1"
    "totalEnergy ?s2 = totalEnergy ?s1" "activeBridge ?s2 = activeBridge ?s1"
    by (rule analyze_frame)+
  have r: "resonanceEstablished ?s2 = resonanceEstablished ?s1"
    unfolding analyze_flag [of eng cfg w' ?s1] c by (simp add: analyze_flag)
  have l: "listeners ?s2 = (if converged eng cfg st then listeners ?s1 + 1 else listeners ?s1)"
    unfolding analyze_listeners [of eng cfg w' ?s1] c ..
  have k: "console ?s2 = console ?s1 @
       (if converged eng cfg st
        then [LogResonanceEstablished (avgDeviation eng cfg st), LogHandshakeAttempt]
        else [LogResonanceIncomplete (avgDeviation eng cfg st)])"
    unfolding analyze_console [of eng cfg w' ?s1] c a ..
  have h: "handshakeMessages cfg w' ?s2 = handshakeMessages cfg w' ?s1"
    by (rule handshakeMessages_cong) (rule f r)+
  have s: "sent ?s2 = sent ?s1 @ (if converged eng cfg st then handshakeMessages cfg w' ?s1 else [])"
    unfolding analyze_sent [of eng cfg w' ?s1] c h ..
  have g: "length (console ?s1) < length (console ?s2)"
    unfolding k by simp
  show ?thesis
    using a c f r g by (simp add: l k s)
qed

lemma tf_exact_pair: "temporalFrequencies exact_pair = [(0, [1000, 1000])]"
  by (simp add: exact_pair_def recordFrequency_def CTT_last_layer fresh_fields)

lemma fields_exact_pair:
  "listeners exact_pair = 0" "console exact_pair = []" "sent exact_pair = []"
  "activeBridge exact_pair = None" "stored exact_pair = None"
  by (simp_all add: exact_pair_def recordFrequency_def CTT_last_layer fresh_fields)

lemma avgDeviation_exact_pair: "avgDeviation binary64 CTT_CONFIG exact_pair = Fin 0"
  by (simp add: avgDeviation_qualifying tf_exact_pair spec_aggregate_def qualifying_def
      spec_deviation_def expected_CTT_0 fsum_def)

lemma converged_exact_pair: "converged binary64 CTT_CONFIG exact_pair"
  using round64_tenth_pos by (simp add: converged_def avgDeviation_exact_pair)

lemma length_handshakeMessages_busy: "length (handshakeMessages cfg (busy_browser t) st) = 4"
  by (simp add: handshakeMessages_def busy_browser_def browser_at_def)

lemma fields_handshaken:
  "listeners handshaken = 1" "length (sent handshaken) = 4"
  "console handshaken = [LogResonanceEstablished (Fin 0), LogHandshakeAttempt]"
  "activeBridge handshaken = None"
  by (simp_all add: handshaken_def analyze_listeners analyze_sent analyze_console analyze_frame
      converged_exact_pair avgDeviation_exact_pair fields_exact_pair length_handshakeMessages_busy)

lemma converged_handshaken: "converged binary64 CTT_CONFIG handshaken"
  unfolding handshaken_def
  using converged_cong [of "analyzeResonancePattern binary64 CTT_CONFIG (busy_browser 0) exact_pair"
      exact_pair binary64 CTT_CONFIG]
  by (simp add: analyze_frame converged_exact_pair)

lemma fields_handshaken_twice:
  "listeners handshaken_twice = 2" "length (sent handshaken_twice) = 8"
  by (simp_all add: handshaken_twice_def analyze_listeners analyze_sent converged_handshaken
      fields_handshaken length_handshakeMessages_busy)

text \<open>
  Claim C4, as stated, fails: after two exact samples for layer 0 the analysis
  converges, and calling it a second time changes the state it left: a second
  listener is registered and the four handshake messages are sent again.
\<close>

theorem analysis_twice_counterexample:
  "handshaken = analyzeResonancePattern binary64 CTT_CONFIG (busy_browser 0) exact_pair
   \<and> handshaken_twice = analyzeResonancePattern binary64 CTT_CONFIG (busy_browser 1) handshaken
   \<and> listeners handshaken = 1 \<and> listeners handshaken_twice = 2
   \<and> length (sent handshaken) = 4 \<and> length (sent handshaken_twice) = 8
   \<and> handshaken_twice \<noteq> handshaken"
proof -
  have "listeners handshaken_twice \<noteq> listeners handshaken"
    by (simp add: fields_handshaken fields_handshaken_twice)
  then have "handshaken_twice \<noteq> handshaken" by auto
  then show ?thesis
    by (simp add: fields_handshaken fields_handshaken_twice)
      (simp add: handshaken_def handshaken_twice_def)
qed

theorem analysis_twice_witness:
  "converged binary64 CTT_CONFIG exact_pair
   \<and> avgDeviation binary64 CTT_CONFIG handshaken = avgDeviation binary64 CTT_CONFIG exact_pair
   \<and> resonanceEstablished handshaken_twice
   \<and> listeners handshaken_twice = listeners handshaken + 1
   \<and> sent handshaken_twice = sent handshaken @ handshakeMessages CTT_CONFIG (busy_browser 1) handshaken
   \<and> length (handshakeMessages CTT_CONFIG (busy_browser 1) handshaken) = 4
   \<and> console handshaken_twice
       = [LogResonanceEstablished (Fin 0), LogHandshakeAttempt,
          LogResonanceEstablished (Fin 0), LogHandshakeAttempt]"
proof -
  note T = analysis_twice [of binary64 CTT_CONFIG "busy_browser 0" exact_pair "busy_browser 1",
      folded handshaken_def, folded handshaken_twice_def]
  have r: "resonanceEstablished handshaken"
    by (simp add: handshaken_def analyze_flag converged_exact_pair)
  have t1: "avgDeviation binary64 CTT_CONFIG handshaken = avgDeviation binary64 CTT_CONFIG exact_pair"
    using T by (rule conjunct1)
  have t2: "resonanceEstablished handshaken_twice = resonanceEstablished handshaken"
    using T by blast
  have t3: "listeners handshaken_twice = listeners handshaken + 1
        \<and> sent handshaken_twice
          = sent handshaken @ handshakeMessages CTT_CONFIG (busy_browser 1) handshaken
        \<and> console handshaken_twice
          = console handshaken
            @ [LogResonanceEstablished (avgDeviation binary64 CTT_CONFIG exact_pair),
               LogHandshakeAttempt]"
    using T converged_exact_pair by blast
  show ?thesis
    using t1 t2 t3 r converged_exact_pair
    by (simp add: fields_handshaken avgDeviation_exact_pair length_handshakeMessages_busy)
qed


section \<open>The bridge\<close>

lemma establish_fields:
  "activeBridge (establishTemporalBridge cfg w st b e)
     = Some \<lparr>bridge_id = b, bridge_energy = e, established = now w\<rparr>"
  "console (establishTemporalBridge cfg w st b e) = console st @ [LogBridgeEstablished b, LogExchange]"
  "sent (establishTemporalBridge cfg w st b e)
     = sent st @ [(OwnWindow, CTT_EXCHANGE b (LAYERS cfg) (energyLevels st) (PRIMES cfg))]"
  "listeners (establishTemporalBridge cfg w st b e) = listeners st"
  "energyLevels (establishTemporalBridge cfg w st b e) = energyLevels st"
  "stored (establishTemporalBridge cfg w st b e)
     = (if storage_throws w then stored st
        else Some \<lparr>bridge_id = b, bridge_energy = e, established = now w\<rparr>)"
  by (simp_all add: establishTemporalBridge_def initiateCrossDomainExchange_def Let_def)

lemma onMessage_response:
  "activeBridge (onMessage cfg st (w, CTT_HANDSHAKE_RESPONSE b e))
     = Some \<lparr>bridge_id = b, bridge_energy = e, established = now w\<rparr>"
  "bridgesCreated (onMessage cfg st (w, CTT_HANDSHAKE_RESPONSE b e)) = bridgesCreated st + 1"
  "exchangesPosted (onMessage cfg st (w, CTT_HANDSHAKE_RESPONSE b e)) = exchangesPosted st + 1"
  "sent (onMessage cfg st (w, CTT_HANDSHAKE_RESPONSE b e))
     = sent st @ [(OwnWindow, CTT_EXCHANGE b (LAYERS cfg) (energyLevels st) (PRIMES cfg))]"
  "listeners (onMessage cfg st (w, CTT_HANDSHAKE_RESPONSE b e)) = listeners st"
  "energyLevels (onMessage cfg st (w, CTT_HANDSHAKE_RESPONSE b e)) = energyLevels st"
  "stored (onMessage cfg st (w, CTT_HANDSHAKE_RESPONSE b e))
     = (if storage_throws w then stored st
        else Some \<lparr>bridge_id = b, bridge_energy = e, established = now w\<rparr>)"
  by (simp_all add: establish_fields bridgesCreated_def exchangesPosted_def)

text \<open>One response, run by \<open>k\<close> listeners in turn.\<close>

lemma listeners_run:
  "listeners (((\<lambda>s. onMessage cfg s (w, CTT_HANDSHAKE_RESPONSE b e)) ^^ k) st) = listeners st
   \<and> energyLevels (((\<lambda>s. onMessage cfg s (w, CTT_HANDSHAKE_RESPONSE b e)) ^^ k) st) = energyLevels st
   \<and> bridgesCreated (((\<lambda>s. onMessage cfg s (w, CTT_HANDSHAKE_RESPONSE b e)) ^^ k) st)
       = bridgesCreated st + k
   \<and> exchangesPosted (((\<lambda>s. onMessage cfg s (w, CTT_HANDSHAKE_RESPONSE b e)) ^^ k) st)
       = exchangesPosted st + k"
  by (induction k) (simp_all del: onMessage.simps add: onMessage_response)

lemma listeners_run_last:
  "0 < k \<Longrightarrow>
   activeBridge (((\<lambda>s. onMessage cfg s (w, CTT_HANDSHAKE_RESPONSE b e)) ^^ k) st)
     = Some \<lparr>bridge_id = b, bridge_energy = e, established = now w\<rparr>
   \<and> last (sent (((\<lambda>s. onMessage cfg s (w, CTT_HANDSHAKE_RESPONSE b e)) ^^ k) st))
     = (OwnWindow, CTT_EXCHANGE b (LAYERS cfg) (energyLevels st) (PRIMES cfg))
   \<and> (\<not> storage_throws w \<longrightarrow>
        stored (((\<lambda>s. onMessage cfg s (w, CTT_HANDSHAKE_RESPONSE b e)) ^^ k) st)
          = Some \<lparr>bridge_id = b, bridge_energy = e, established = now w\<rparr>)"
  by (cases k) (simp_all del: onMessage.simps add: onMessage_response listeners_run)

lemma dispatch_response:
  "listeners (dispatchMessage cfg st (w, CTT_HANDSHAKE_RESPONSE b e)) = listeners st"
  "energyLevels (dispatchMessage cfg st (w, CTT_HANDSHAKE_RESPONSE b e)) = energyLevels st"
  "bridgesCreated (dispatchMessage cfg st (w, CTT_HANDSHAKE_RESPONSE b e))
     = bridgesCreated st + listeners st"
  "exchangesPosted (dispatchMessage cfg st (w, CTT_HANDSHAKE_RESPONSE b e))
     = exchangesPosted st + listeners st"
  unfolding dispatchMessage_def by (simp_all only: listeners_run)

lemma dispatch_response_last:
  "0 < listeners st \<Longrightarrow>
   activeBridge (dispatchMessage cfg st (w, CTT_HANDSHAKE_RESPONSE b e))
     = Some \<lparr>bridge_id = b, bridge_energy = e, established = now w\<rparr>
   \<and> last (sent (dispatchMessage cfg st (w, CTT_HANDSHAKE_RESPONSE b e)))
     = (OwnWindow, CTT_EXCHANGE b (LAYERS cfg) (energyLevels st) (PRIMES cfg))
   \<and> (\<not> storage_throws w \<longrightarrow>
        stored (dispatchMessage cfg st (w, CTT_HANDSHAKE_RESPONSE b e))
          = Some \<lparr>bridge_id = b, bridge_energy = e, established = now w\<rparr>)"
  unfolding dispatchMessage_def by (rule listeners_run_last)

lemma deliver_snoc:
  "deliverResponses cfg st (rs @ [(w, b, e)])
     = dispatchMessage cfg (deliverResponses cfg st rs) (w, CTT_HANDSHAKE_RESPONSE b e)"
  by (simp add: deliverResponses_def)

lemma deliver_counts:
  "listeners (deliverResponses cfg st rs) = listeners st
   \<and> energyLevels (deliverResponses cfg st rs) = energyLevels st
   \<and> bridgesCreated (deliverResponses cfg st rs) = bridgesCreated st + listeners st * length rs
   \<and> exchangesPosted (deliverResponses cfg st rs) = exchangesPosted st + listeners st * length rs"
proof (induction rs rule: rev_induct)
  case Nil
  then show ?case by (simp add: deliverResponses_def)
next
  case (snoc r rs)
  obtain w b e where r: "r = (w, b, e)" by (cases r)
  show ?case using snoc unfolding r deliver_snoc by (simp add: dispatch_response)
qed

lemma deliver_last:
  assumes "0 < listeners st" and "rs \<noteq> []"
  shows "activeBridge (deliverResponses cfg st rs)
     = Some \<lparr>bridge_id = fst (snd (last rs)), bridge_energy = snd (snd (last rs)),
             established = now (fst (last rs))\<rparr>
   \<and> last (sent (deliverResponses cfg st rs))
     = (OwnWindow, CTT_EXCHANGE (fst (snd (last rs))) (LAYERS cfg) (energyLevels st) (PRIMES cfg))
   \<and> (\<not> storage_throws (fst (last rs)) \<longrightarrow>
        stored (deliverResponses cfg st rs)
          = Some \<lparr>bridge_id = fst (snd (last rs)), bridge_energy = snd (snd (last rs)),
                  established = now (fst (last rs))\<rparr>)"
proof -
  obtain rs' r where rs: "rs = rs' @ [r]"
    using assms(2) by (cases rs rule: rev_cases) auto
  obtain w b e where r: "r = (w, b, e)" by (cases r)
  have l: "0 < listeners (deliverResponses cfg st rs')"
    using assms(1) by (simp add: deliver_counts)
  show ?thesis
    unfolding rs r deliver_snoc using dispatch_response_last [OF l, of cfg w b e]
    by (simp add: deliver_counts)
qed

lemma deliver_unheard: "listeners st = 0 \<Longrightarrow> deliverResponses cfg st rs = st"
proof (induction rs rule: rev_induct)
  case Nil
  then show ?case by (simp add: deliverResponses_def)
next
  case (snoc r rs)
  obtain w b e where r: "r = (w, b, e)" by (cases r)
  show ?case using snoc unfolding r deliver_snoc by (simp add: dispatchMessage_def)
qed

text \<open>
  Claim C1, amended. Bridge creation is not guarded. A \<^verbatim>\<open>CTT_HANDSHAKE_RESPONSE\<close>
  delivered to the window is run by every \<^verbatim>\<open>message\<close> listener registered so far, one
  for each handshake attempt, and no run registers a listener. Each run creates a
  bridge, overwrites \<^verbatim>\<open>activeBridge\<close> and starts another exchange. So after \<open>N\<close>
  responses delivered in a state with \<open>k\<close> listeners, \<open>k * N\<close> bridges have been created
  and \<open>k * N\<close> exchanges posted; when \<open>k > 0\<close> and \<open>N > 0\<close> the active bridge is the one
  made from the last response, the last message sent is the exchange for it, with the
  energy levels and the primes, and the bridge is the one in the local storage unless
  the storage throws. With no listener (no handshake attempted) the responses change
  nothing.
\<close>

theorem every_response_creates_bridge:
  "listeners (deliverResponses cfg st rs) = listeners st
   \<and> bridgesCreated (deliverResponses cfg st rs) = bridgesCreated st + listeners st * length rs
   \<and> exchangesPosted (deliverResponses cfg st rs) = exchangesPosted st + listeners st * length rs
   \<and> (0 < listeners st \<and> rs \<noteq> [] \<longrightarrow>
        activeBridge (deliverResponses cfg st rs)
          = Some \<lparr>bridge_id = fst (snd (last rs)), bridge_energy = snd (snd (last rs)),
                  established = now (fst (last rs))\<rparr>
        \<and> last (sent (deliverResponses cfg st rs))
          = (OwnWindow,
             CTT_EXCHANGE (fst (snd (last rs))) (LAYERS cfg) (energyLevels st) (PRIMES cfg))
        \<and> (\<not> storage_throws (fst (last rs)) \<longrightarrow>
             stored (deliverResponses cfg st rs)
               = Some \<lparr>bridge_id = fst (snd (last rs)), bridge_energy = snd (snd (last rs)),
                       established = now (fst (last rs))\<rparr>))
   \<and> (listeners st = 0 \<longrightarrow> deliverResponses cfg st rs = st)"
  using deliver_counts [of cfg st rs] deliver_last [of st rs cfg] deliver_unheard [of st cfg rs]
  by blast

lemma now_browser_at: "now (browser_at t) = t" "\<not> storage_throws (browser_at t)"
  by (simp_all add: browser_at_def)

lemma bridges_handshaken: "bridgesCreated handshaken = 0" "exchangesPosted handshaken = 0"
proof -
  show "bridgesCreated handshaken = 0"
    by (simp add: bridgesCreated_def fields_handshaken)
  have "sent handshaken = handshakeMessages CTT_CONFIG (busy_browser 0) handshaken"
    by (simp add: handshaken_def analyze_sent converged_exact_pair fields_exact_pair)
  then show "exchangesPosted handshaken = 0"
    by (simp add: exchangesPosted_def handshakeMessages_def busy_browser_def browser_at_def)
qed

lemma bridges_handshaken_twice: "bridgesCreated handshaken_twice = 0"
  by (simp add: bridgesCreated_def handshaken_twice_def analyze_console converged_handshaken
      fields_handshaken)

text \<open>
  Claim C1, as stated, fails: after the handshake (one listener registered), two
  responses create two bridges, and the second replaces the first as the active
  bridge.
\<close>

theorem second_response_counterexample:
  "listeners handshaken = 1
   \<and> bridgesCreated (deliverResponses CTT_CONFIG handshaken
        [(browser_at 5, ''A'', 1), (browser_at 6, ''B'', 2)]) = 2
   \<and> activeBridge (deliverResponses CTT_CONFIG handshaken [(browser_at 5, ''A'', 1)])
      = Some \<lparr>bridge_id = ''A'', bridge_energy = 1, established = 5\<rparr>
   \<and> activeBridge (deliverResponses CTT_CONFIG handshaken
        [(browser_at 5, ''A'', 1), (browser_at 6, ''B'', 2)])
      = Some \<lparr>bridge_id = ''B'', bridge_energy = 2, established = 6\<rparr>"
proof -
  have l: "0 < listeners handshaken" by (simp add: fields_handshaken)
  show ?thesis
    using deliver_counts [of CTT_CONFIG handshaken "[(browser_at 5, ''A'', 1), (browser_at 6, ''B'', 2)]"]
      deliver_last [OF l, of "[(browser_at 5, ''A'', 1)]" CTT_CONFIG]
      deliver_last [OF l, of "[(browser_at 5, ''A'', 1), (browser_at 6, ''B'', 2)]" CTT_CONFIG]
    by (simp add: fields_handshaken bridges_handshaken now_browser_at)
qed

theorem every_response_creates_bridge_witness:
  "listeners handshaken = 1
   \<and> bridgesCreated (deliverResponses CTT_CONFIG handshaken
        [(browser_at 5, ''A'', 1), (browser_at 6, ''B'', 2), (browser_at 7, ''C'', 3)]) = 3
   \<and> exchangesPosted (deliverResponses CTT_CONFIG handshaken
        [(browser_at 5, ''A'', 1), (browser_at 6, ''B'', 2), (browser_at 7, ''C'', 3)]) = 3
   \<and> activeBridge (deliverResponses CTT_CONFIG handshaken
        [(browser_at 5, ''A'', 1), (browser_at 6, ''B'', 2), (browser_at 7, ''C'', 3)])
      = Some \<lparr>bridge_id = ''C'', bridge_energy = 3, established = 7\<rparr>
   \<and> last (sent (deliverResponses CTT_CONFIG handshaken
        [(browser_at 5, ''A'', 1), (browser_at 6, ''B'', 2), (browser_at 7, ''C'', 3)]))
      = (OwnWindow, CTT_EXCHANGE ''C'' (LAYERS CTT_CONFIG) (energyLevels handshaken) (PRIMES CTT_CONFIG))
   \<and> stored (deliverResponses CTT_CONFIG handshaken
        [(browser_at 5, ''A'', 1), (browser_at 6, ''B'', 2), (browser_at 7, ''C'', 3)])
      = Some \<lparr>bridge_id = ''C'', bridge_energy = 3, established = 7\<rparr>
   \<and> listeners handshaken_twice = 2
   \<and> bridgesCreated (deliverResponses CTT_CONFIG handshaken_twice [(browser_at 5, ''A'', 1)]) = 2
   \<and> listeners exact_pair = 0
   \<and> deliverResponses CTT_CONFIG exact_pair [(browser_at 5, ''A'', 1)] = exact_pair"
proof -
  note A = every_response_creates_bridge [of CTT_CONFIG handshaken
        "[(browser_at 5, ''A'', 1), (browser_at 6, ''B'', 2), (browser_at 7, ''C'', 3)]"]
  note B = every_response_creates_bridge [of CTT_CONFIG handshaken_twice "[(browser_at 5, ''A'', 1)]"]
  note C = every_response_creates_bridge [of CTT_CONFIG exact_pair "[(browser_at 5, ''A'', 1)]"]
  have c: "deliverResponses CTT_CONFIG exact_pair [(browser_at 5, ''A'', 1)] = exact_pair"
    using C by (simp add: fields_exact_pair)
  have b: "bridgesCreated (deliverResponses CTT_CONFIG handshaken_twice [(browser_at 5, ''A'', 1)]) = 2"
    using B by (simp add: fields_handshaken_twice bridges_handshaken_twice)
  show ?thesis
    using A b c
    by (simp add: fields_handshaken fields_handshaken_twice fields_exact_pair bridges_handshaken
        now_browser_at)
qed


section \<open>One run of the cascade\<close>

lemma energyAt_computeLevels:
  "energyLevels st = computeLevels eng cfg \<Longrightarrow> k < nat (LAYERS cfg) \<Longrightarrow>
   energyAt st k = Some (decay eng cfg k)"
  by (simp add: energyAt_def length_computeLevels nth_computeLevels)

lemma applyWorkerPressure_fired: "\<exists>fs. applyWorkerPressure w k st = st\<lparr>fired := fs\<rparr>"
proof (cases "has_Worker w \<and> \<not> worker_throws w")
  case True
  then show ?thesis by (auto simp: applyWorkerPressure_def)
next
  case False
  then have "applyWorkerPressure w k st = st\<lparr>fired := fired st\<rparr>"
    by (auto simp: applyWorkerPressure_def)
  then show ?thesis by blast
qed

lemma createTemporalPressure_cases:
  "(dom_throws w \<longrightarrow> createTemporalPressure eng cfg w wt k energy st = Rejected (DOMError k) st)
   \<and> (\<not> dom_throws w \<and> raf_throws w \<longrightarrow>
        (\<exists>fs. createTemporalPressure eng cfg w wt k energy st = Rejected (RAFError k) (st\<lparr>fired := fs\<rparr>)))
   \<and> (\<not> dom_throws w \<and> \<not> raf_throws w \<longrightarrow>
        (\<exists>fs. createTemporalPressure eng cfg w wt k energy st
           = Resolved (recordFrequency eng cfg wt (st\<lparr>fired := fs\<rparr>) k (totalDelay cfg w k energy))))"
proof -
  obtain fs where fs: "applyWorkerPressure w k (st\<lparr>fired := fired st @ [DOMPressure k]\<rparr>) = st\<lparr>fired := fs\<rparr>"
    using applyWorkerPressure_fired [of w k "st\<lparr>fired := fired st @ [DOMPressure k]\<rparr>"] by auto
  show ?thesis
    by (auto simp: createTemporalPressure_def applyDOMPressure_def applyRAFPressure_def fs Let_def)
qed

lemma cascade_step:
  assumes k: "k < nat (LAYERS cfg)"
    and E: "energyLevels st = computeLevels eng cfg"
    and T: "temporalFrequencies st = map (\<lambda>d. (d, [layerDelay eng cfg env d])) [0..<k]"
  shows "(dom_throws (env (2 * k)) \<longrightarrow> cascade eng cfg env (k # ds) st = Rejected (DOMError k) st)
   \<and> (\<not> dom_throws (env (2 * k)) \<and> raf_throws (env (2 * k)) \<longrightarrow>
        (\<exists>fs. cascade eng cfg env (k # ds) st = Rejected (RAFError k) (st\<lparr>fired := fs\<rparr>)))
   \<and> (\<not> dom_throws (env (2 * k)) \<and> \<not> raf_throws (env (2 * k)) \<longrightarrow>
        (\<exists>fs c. cascade eng cfg env (k # ds) st
             = cascade eng cfg env ds
                 (st\<lparr>fired := fs,
                     temporalFrequencies := map (\<lambda>d. (d, [layerDelay eng cfg env d])) [0..<Suc k],
                     console := console st @ c\<rparr>)
           \<and> filter is_decision c
             = (if Suc k = nat (LAYERS cfg) then [LogResonanceIncomplete NaN] else [])))"
proof -
  let ?w = "env (2 * k)" and ?wt = "env (2 * k + 1)" and ?e = "decay eng cfg k"
  let ?tf = "map (\<lambda>d. (d, [layerDelay eng cfg env d])) [0..<Suc k]"
  note en = energyAt_computeLevels [OF E k]
  note C = createTemporalPressure_cases [of ?w eng cfg ?wt k ?e st]
  have d: "totalDelay cfg ?w k ?e = layerDelay eng cfg env k"
    by (simp add: layerDelay_def)
  have last: "int k = LAYERS cfg - 1 \<longleftrightarrow> Suc k = nat (LAYERS cfg)"
    using k by linarith
  have 1: "cascade eng cfg env (k # ds) st = Rejected (DOMError k) st" if "dom_throws ?w"
  proof -
    from C that have "createTemporalPressure eng cfg ?w ?wt k ?e st = Rejected (DOMError k) st"
      by blast
    then show ?thesis
      by (simp only: cascade.simps en option.case outcome.case)
  qed
  have 2: "\<exists>fs. cascade eng cfg env (k # ds) st = Rejected (RAFError k) (st\<lparr>fired := fs\<rparr>)"
    if "\<not> dom_throws ?w" "raf_throws ?w"
  proof -
    from C that obtain fs where
      "createTemporalPressure eng cfg ?w ?wt k ?e st = Rejected (RAFError k) (st\<lparr>fired := fs\<rparr>)"
      by blast
    then have "cascade eng cfg env (k # ds) st = Rejected (RAFError k) (st\<lparr>fired := fs\<rparr>)"
      by (simp only: cascade.simps en option.case outcome.case)
    then show ?thesis by blast
  qed
  have 3: "\<exists>fs c. cascade eng cfg env (k # ds) st
             = cascade eng cfg env ds (st\<lparr>fired := fs, temporalFrequencies := ?tf, console := console st @ c\<rparr>)
           \<and> filter is_decision c
             = (if Suc k = nat (LAYERS cfg) then [LogResonanceIncomplete NaN] else [])"
    if "\<not> dom_throws ?w" "\<not> raf_throws ?w"
  proof -
    from C that obtain fs where cr:
      "createTemporalPressure eng cfg ?w ?wt k ?e st
         = Resolved (recordFrequency eng cfg ?wt (st\<lparr>fired := fs\<rparr>) k (layerDelay eng cfg env k))"
      unfolding d by blast
    have T': "temporalFrequencies (st\<lparr>fired := fs\<rparr>) = map (\<lambda>d. (d, [layerDelay eng cfg env d])) [0..<k]"
      using T by simp
    note R = recordFrequency_fresh_single [OF T', of eng cfg ?wt]
    define c1 where "c1 = (if Suc k = nat (LAYERS cfg) then [LogResonanceIncomplete NaN] else [])"
    have r: "recordFrequency eng cfg ?wt (st\<lparr>fired := fs\<rparr>) k (layerDelay eng cfg env k)
        = st\<lparr>fired := fs, temporalFrequencies := ?tf, console := console st @ c1\<rparr>"
      unfolding R c1_def by (simp del: upt_Suc add: last)
    define c2 where "c2 = (if ?e \<le> RESONANCE_THRESHOLD cfg \<and> \<not> resonanceEstablished st
                           then [LogThresholdReached k] else [])"
    let ?s1 = "st\<lparr>fired := fs, temporalFrequencies := ?tf, console := console st @ c1\<rparr>"
    have "cascade eng cfg env (k # ds) st
        = cascade eng cfg env ds
            (if ?e \<le> RESONANCE_THRESHOLD cfg \<and> \<not> resonanceEstablished ?s1
             then ?s1\<lparr>console := console ?s1 @ [LogThresholdReached k]\<rparr> else ?s1)"
      by (simp only: cascade.simps en option.case cr outcome.case r)
    also have "(if ?e \<le> RESONANCE_THRESHOLD cfg \<and> \<not> resonanceEstablished ?s1
             then ?s1\<lparr>console := console ?s1 @ [LogThresholdReached k]\<rparr> else ?s1)
        = st\<lparr>fired := fs, temporalFrequencies := ?tf, console := console st @ (c1 @ c2)\<rparr>"
      by (simp del: upt_Suc add: c2_def)
    finally have "cascade eng cfg env (k # ds) st
        = cascade eng cfg env ds (st\<lparr>fired := fs, temporalFrequencies := ?tf, console := console st @ (c1 @ c2)\<rparr>)" .
    moreover have "filter is_decision (c1 @ c2)
        = (if Suc k = nat (LAYERS cfg) then [LogResonanceIncomplete NaN] else [])"
      by (simp add: c1_def c2_def)
    ultimately show ?thesis by blast
  qed
  show ?thesis using 1 2 3 by blast
qed

lemma cascade_single_run:
  assumes "k \<le> nat (LAYERS cfg)"
    and "energyLevels st = computeLevels eng cfg"
    and "temporalFrequencies st = map (\<lambda>d. (d, [layerDelay eng cfg env d])) [0..<k]"
    and "filter is_decision (console st)
          = (if k = nat (LAYERS cfg) \<and> 0 < k then [LogResonanceIncomplete NaN] else [])"
  shows "resonanceEstablished (state_of (cascade eng cfg env [k..<nat (LAYERS cfg)] st)) = resonanceEstablished st
     \<and> listeners (state_of (cascade eng cfg env [k..<nat (LAYERS cfg)] st)) = listeners st
     \<and> sent (state_of (cascade eng cfg env [k..<nat (LAYERS cfg)] st)) = sent st
     \<and> activeBridge (state_of (cascade eng cfg env [k..<nat (LAYERS cfg)] st)) = activeBridge st
     \<and> (is_Resolved (cascade eng cfg env [k..<nat (LAYERS cfg)] st) \<longleftrightarrow>
          (\<forall>d. k \<le> d \<and> d < nat (LAYERS cfg) \<longrightarrow> \<not> dom_throws (env (2 * d)) \<and> \<not> raf_throws (env (2 * d))))
     \<and> (is_Resolved (cascade eng cfg env [k..<nat (LAYERS cfg)] st) \<longrightarrow>
          temporalFrequencies (state_of (cascade eng cfg env [k..<nat (LAYERS cfg)] st))
            = map (\<lambda>d. (d, [layerDelay eng cfg env d])) [0..<nat (LAYERS cfg)]
        \<and> filter is_decision (console (state_of (cascade eng cfg env [k..<nat (LAYERS cfg)] st)))
            = (if 0 < nat (LAYERS cfg) then [LogResonanceIncomplete NaN] else []))
     \<and> (\<not> is_Resolved (cascade eng cfg env [k..<nat (LAYERS cfg)] st) \<longrightarrow>
          filter is_decision (console (state_of (cascade eng cfg env [k..<nat (LAYERS cfg)] st))) = []
        \<and> (\<exists>j < nat (LAYERS cfg). temporalFrequencies (state_of (cascade eng cfg env [k..<nat (LAYERS cfg)] st))
              = map (\<lambda>d. (d, [layerDelay eng cfg env d])) [0..<j]))"
  using assms
proof (induction "nat (LAYERS cfg) - k" arbitrary: k st)
  case 0
  then have "k = nat (LAYERS cfg)" by simp
  with 0 show ?case by auto
next
  case (Suc m)
  let ?n = "nat (LAYERS cfg)"
  let ?ok = "\<lambda>d. \<not> dom_throws (env (2 * d)) \<and> \<not> raf_throws (env (2 * d))"
  from Suc.hyps(2) have k: "k < ?n" by simp
  then have upt: "[k..<?n] = k # [Suc k..<?n]" by (simp add: upt_conv_Cons)
  have c0: "filter is_decision (console st) = []"
    using Suc.prems(4) k by simp
  note S = cascade_step [OF k Suc.prems(2) Suc.prems(3), of "[Suc k..<?n]"]
  consider (dom) "dom_throws (env (2 * k))"
    | (raf) "\<not> dom_throws (env (2 * k))" "raf_throws (env (2 * k))"
    | (ok) "\<not> dom_throws (env (2 * k))" "\<not> raf_throws (env (2 * k))"
    by blast
  then show ?case
  proof cases
    case dom
    with S have "cascade eng cfg env [k..<?n] st = Rejected (DOMError k) st"
      unfolding upt by blast
    moreover have "\<not> (\<forall>d. k \<le> d \<and> d < ?n \<longrightarrow> ?ok d)"
      using dom k by blast
    ultimately show ?thesis
      using c0 k Suc.prems(3) by auto
  next
    case raf
    with S obtain fs where "cascade eng cfg env [k..<?n] st = Rejected (RAFError k) (st\<lparr>fired := fs\<rparr>)"
      unfolding upt by blast
    moreover have "\<not> (\<forall>d. k \<le> d \<and> d < ?n \<longrightarrow> ?ok d)"
      using raf k by blast
    ultimately show ?thesis
      using c0 k Suc.prems(3) by auto
  next
    case ok
    with S obtain fs c where
      eq: "cascade eng cfg env [k..<?n] st
          = cascade eng cfg env [Suc k..<?n]
              (st\<lparr>fired := fs,
                  temporalFrequencies := map (\<lambda>d. (d, [layerDelay eng cfg env d])) [0..<Suc k],
                  console := console st @ c\<rparr>)"
      and c: "filter is_decision c = (if Suc k = ?n then [LogResonanceIncomplete NaN] else [])"
      unfolding upt by blast
    let ?s = "st\<lparr>fired := fs,
                  temporalFrequencies := map (\<lambda>d. (d, [layerDelay eng cfg env d])) [0..<Suc k],
                  console := console st @ c\<rparr>"
    have p1: "m = ?n - Suc k" using Suc.hyps(2) by simp
    have p2: "Suc k \<le> ?n" using k by simp
    have p3: "energyLevels ?s = computeLevels eng cfg" using Suc.prems(2) by simp
    have p4: "temporalFrequencies ?s = map (\<lambda>d. (d, [layerDelay eng cfg env d])) [0..<Suc k]"
      by simp
    have p5: "filter is_decision (console ?s)
        = (if Suc k = ?n \<and> 0 < Suc k then [LogResonanceIncomplete NaN] else [])"
      using c0 c by simp
    note IH = Suc.hyps(1) [OF p1 p2 p3 p4 p5]
    have q: "(\<forall>d. k \<le> d \<and> d < ?n \<longrightarrow> ?ok d) \<longleftrightarrow> (\<forall>d. Suc k \<le> d \<and> d < ?n \<longrightarrow> ?ok d)"
    proof
      assume "\<forall>d. k \<le> d \<and> d < ?n \<longrightarrow> ?ok d"
      then show "\<forall>d. Suc k \<le> d \<and> d < ?n \<longrightarrow> ?ok d" by auto
    next
      assume a: "\<forall>d. Suc k \<le> d \<and> d < ?n \<longrightarrow> ?ok d"
      show "\<forall>d. k \<le> d \<and> d < ?n \<longrightarrow> ?ok d"
      proof (intro allI impI)
        fix d assume "k \<le> d \<and> d < ?n"
        then have "d = k \<or> (Suc k \<le> d \<and> d < ?n)" by auto
        then show "?ok d" using ok a by blast
      qed
    qed
    show ?thesis
      unfolding eq q using IH by simp
  qed
qed

lemma trigger_state_of:
  "state_of (triggerCrossDomainVortex eng cfg env st)
     = (case cascade eng cfg env [0..<nat (LAYERS cfg)] st of
          Rejected e s \<Rightarrow> s
        | Resolved s1 \<Rightarrow>
            (if resonanceEstablished s1
             then s1\<lparr>console := console s1 @ [LogVortexComplete, LogResonanceAchieved]\<rparr>
             else s1\<lparr>console := console s1 @
                    [LogVortexComplete,
                     LogRetuning (ALPHA cfg * (95 / 100 + random (env (2 * nat (LAYERS cfg))) * (1 / 10)))]\<rparr>))"
  by (simp add: triggerCrossDomainVortex_def retuneParameters_def Let_def split: outcome.split)

lemma trigger_is_Resolved:
  "is_Resolved (triggerCrossDomainVortex eng cfg env st) = is_Resolved (cascade eng cfg env [0..<nat (LAYERS cfg)] st)"
  by (simp add: triggerCrossDomainVortex_def Let_def split: outcome.split)

lemma trigger_single_run:
  "\<not> resonanceEstablished (state_of (triggerCrossDomainVortex eng cfg env (CTT_CrossSyncVortex eng cfg)))
   \<and> listeners (state_of (triggerCrossDomainVortex eng cfg env (CTT_CrossSyncVortex eng cfg))) = 0
   \<and> sent (state_of (triggerCrossDomainVortex eng cfg env (CTT_CrossSyncVortex eng cfg))) = []
   \<and> activeBridge (state_of (triggerCrossDomainVortex eng cfg env (CTT_CrossSyncVortex eng cfg))) = None
   \<and> (is_Resolved (triggerCrossDomainVortex eng cfg env (CTT_CrossSyncVortex eng cfg)) \<longleftrightarrow>
        (\<forall>d < nat (LAYERS cfg). \<not> dom_throws (env (2 * d)) \<and> \<not> raf_throws (env (2 * d))))
   \<and> (is_Resolved (triggerCrossDomainVortex eng cfg env (CTT_CrossSyncVortex eng cfg)) \<longrightarrow>
        temporalFrequencies (state_of (triggerCrossDomainVortex eng cfg env (CTT_CrossSyncVortex eng cfg)))
          = map (\<lambda>d. (d, [layerDelay eng cfg env d])) [0..<nat (LAYERS cfg)]
      \<and> filter is_decision (console (state_of (triggerCrossDomainVortex eng cfg env (CTT_CrossSyncVortex eng cfg))))
          = (if 0 < nat (LAYERS cfg) then [LogResonanceIncomplete NaN] else []))
   \<and> (\<not> is_Resolved (triggerCrossDomainVortex eng cfg env (CTT_CrossSyncVortex eng cfg)) \<longrightarrow>
        filter is_decision (console (state_of (triggerCrossDomainVortex eng cfg env (CTT_CrossSyncVortex eng cfg)))) = []
      \<and> (\<exists>j < nat (LAYERS cfg).
            temporalFrequencies (state_of (triggerCrossDomainVortex eng cfg env (CTT_CrossSyncVortex eng cfg)))
              = map (\<lambda>d. (d, [layerDelay eng cfg env d])) [0..<j]))"
proof -
  let ?st = "CTT_CrossSyncVortex eng cfg"
  have a1: "0 \<le> nat (LAYERS cfg)" by simp
  have a2: "energyLevels ?st = computeLevels eng cfg" by (simp add: CTT_CrossSyncVortex_def)
  have a3: "temporalFrequencies ?st = map (\<lambda>d. (d, [layerDelay eng cfg env d])) [0..<0]"
    by (simp add: CTT_CrossSyncVortex_def)
  have a4: "filter is_decision (console ?st)
      = (if 0 = nat (LAYERS cfg) \<and> 0 < (0::nat) then [LogResonanceIncomplete NaN] else [])"
    by (simp add: CTT_CrossSyncVortex_def)
  note C = cascade_single_run [OF a1 a2 a3 a4]
  have f: "\<not> resonanceEstablished ?st" "listeners ?st = 0" "sent ?st = []" "activeBridge ?st = None"
    by (simp_all add: CTT_CrossSyncVortex_def)
  show ?thesis
  proof (cases "cascade eng cfg env [0..<nat (LAYERS cfg)] ?st")
    case (Resolved s1)
    with C f show ?thesis
      by (simp add: trigger_state_of trigger_is_Resolved)
  next
    case (Rejected e s)
    with C f show ?thesis
      by (simp add: trigger_state_of trigger_is_Resolved)
  qed
qed

lemma decisions_absent:
  "filter is_decision xs = [] \<or> filter is_decision xs = [LogResonanceIncomplete NaN] \<Longrightarrow>
   LogHandshakeAttempt \<notin> set xs"
proof
  assume a: "filter is_decision xs = [] \<or> filter is_decision xs = [LogResonanceIncomplete NaN]"
  assume "LogHandshakeAttempt \<in> set xs"
  then have m: "LogHandshakeAttempt \<in> set (filter is_decision xs)" by simp
  from a show False
  proof (elim disjE)
    assume e: "filter is_decision xs = []"
    from m show False unfolding e by simp
  next
    assume e: "filter is_decision xs = [LogResonanceIncomplete NaN]"
    from m show False unfolding e by simp
  qed
qed

text \<open>
  Claim C3. In one execution of \<^verbatim>\<open>triggerCrossDomainVortex\<close> on a fresh object, in any
  browser: when the run completes, every layer has exactly one recorded delay, its
  own, when the analysis runs (on the report of the last layer), so no layer passes
  the filter \<^verbatim>\<open>delays.length > 1\<close> and the analysis reports an incomplete resonance
  with deviation \<^verbatim>\<open>NaN\<close>; when a stimulus throws and the run is rejected, the analysis
  has not run at all. Either way \<^verbatim>\<open>resonanceEstablished\<close> is false at the end and
  \<^verbatim>\<open>attemptCrossDomainHandshake\<close> has not been called: no listener is registered,
  no message is sent, its console line is absent. The run completes exactly when no
  DOM and no frame-loop stimulus throws.
\<close>

theorem single_run_never_resonates:
  "\<not> resonanceEstablished (state_of (triggerCrossDomainVortex eng cfg env (CTT_CrossSyncVortex eng cfg)))
   \<and> listeners (state_of (triggerCrossDomainVortex eng cfg env (CTT_CrossSyncVortex eng cfg))) = 0
   \<and> sent (state_of (triggerCrossDomainVortex eng cfg env (CTT_CrossSyncVortex eng cfg))) = []
   \<and> LogHandshakeAttempt \<notin> set (console (state_of (triggerCrossDomainVortex eng cfg env (CTT_CrossSyncVortex eng cfg))))
   \<and> (is_Resolved (triggerCrossDomainVortex eng cfg env (CTT_CrossSyncVortex eng cfg)) \<longleftrightarrow>
        (\<forall>d < nat (LAYERS cfg). \<not> dom_throws (env (2 * d)) \<and> \<not> raf_throws (env (2 * d))))
   \<and> (is_Resolved (triggerCrossDomainVortex eng cfg env (CTT_CrossSyncVortex eng cfg)) \<and> 0 < LAYERS cfg \<longrightarrow>
        temporalFrequencies (state_of (triggerCrossDomainVortex eng cfg env (CTT_CrossSyncVortex eng cfg)))
          = map (\<lambda>d. (d, [layerDelay eng cfg env d])) [0..<nat (LAYERS cfg)]
      \<and> collectFrequencies eng cfg (state_of (triggerCrossDomainVortex eng cfg env (CTT_CrossSyncVortex eng cfg)))
          (temporalFrequencies (state_of (triggerCrossDomainVortex eng cfg env (CTT_CrossSyncVortex eng cfg)))) = []
      \<and> filter is_decision (console (state_of (triggerCrossDomainVortex eng cfg env (CTT_CrossSyncVortex eng cfg))))
          = [LogResonanceIncomplete NaN])
   \<and> (\<not> is_Resolved (triggerCrossDomainVortex eng cfg env (CTT_CrossSyncVortex eng cfg)) \<longrightarrow>
        filter is_decision (console (state_of (triggerCrossDomainVortex eng cfg env (CTT_CrossSyncVortex eng cfg)))) = [])"
proof -
  let ?T = "triggerCrossDomainVortex eng cfg env (CTT_CrossSyncVortex eng cfg)"
  note R = trigger_single_run [of eng cfg env]
  have d: "filter is_decision (console (state_of ?T)) = []
      \<or> filter is_decision (console (state_of ?T)) = [LogResonanceIncomplete NaN]"
    using R by (cases "is_Resolved ?T") auto
  have h: "LogHandshakeAttempt \<notin> set (console (state_of ?T))"
    using d by (rule decisions_absent)
  have c: "collectFrequencies eng cfg (state_of ?T) (temporalFrequencies (state_of ?T)) = []"
    if "is_Resolved ?T"
  proof -
    from R that have "temporalFrequencies (state_of ?T)
        = map (\<lambda>d. (d, [layerDelay eng cfg env d])) [0..<nat (LAYERS cfg)]"
      by blast
    then show ?thesis
      by (simp add: collectFrequencies_qualifying qualifying_singles)
  qed
  show ?thesis
    using R h c by auto
qed

theorem single_run_never_resonates_witness:
  "is_Resolved (triggerCrossDomainVortex binary64 CTT_CONFIG quiet_run (CTT_CrossSyncVortex binary64 CTT_CONFIG))
   \<and> \<not> resonanceEstablished (state_of (triggerCrossDomainVortex binary64 CTT_CONFIG quiet_run (CTT_CrossSyncVortex binary64 CTT_CONFIG)))
   \<and> listeners (state_of (triggerCrossDomainVortex binary64 CTT_CONFIG quiet_run (CTT_CrossSyncVortex binary64 CTT_CONFIG))) = 0
   \<and> map fst (temporalFrequencies (state_of (triggerCrossDomainVortex binary64 CTT_CONFIG quiet_run (CTT_CrossSyncVortex binary64 CTT_CONFIG))))
       = [0..<33]
   \<and> filter is_decision (console (state_of (triggerCrossDomainVortex binary64 CTT_CONFIG quiet_run (CTT_CrossSyncVortex binary64 CTT_CONFIG))))
       = [LogResonanceIncomplete NaN]"
proof -
  let ?T = "triggerCrossDomainVortex binary64 CTT_CONFIG quiet_run (CTT_CrossSyncVortex binary64 CTT_CONFIG)"
  note R = single_run_never_resonates [of binary64 CTT_CONFIG quiet_run]
  have ok: "\<forall>d < nat (LAYERS CTT_CONFIG). \<not> dom_throws (quiet_run (2 * d)) \<and> \<not> raf_throws (quiet_run (2 * d))"
    by (simp add: quiet_run_def browser_at_def)
  with R have r: "is_Resolved ?T" by blast
  with R CTT_layers(2) have
    "temporalFrequencies (state_of ?T) = map (\<lambda>d. (d, [layerDelay binary64 CTT_CONFIG quiet_run d])) [0..<nat (LAYERS CTT_CONFIG)]"
    "filter is_decision (console (state_of ?T)) = [LogResonanceIncomplete NaN]"
    by blast+
  then show ?thesis
    using R r by (simp add: CTT_layers comp_def)
qed

section \<open>Configurations that the specification calls invalid\<close>

lemma trigger_no_layers:
  assumes "LAYERS cfg \<le> 0"
  shows "triggerCrossDomainVortex eng cfg env st
     = (if resonanceEstablished st
        then Resolved (st\<lparr>console := console st @ [LogVortexComplete, LogResonanceAchieved]\<rparr>)
        else Resolved (st\<lparr>console := console st @
               [LogVortexComplete, LogRetuning (ALPHA cfg * (95 / 100 + random (env 0) * (1 / 10)))]\<rparr>))"
proof -
  have "nat (LAYERS cfg) = 0" using assms by simp
  then show ?thesis
    by (simp add: triggerCrossDomainVortex_def retuneParameters_def Let_def)
qed

text \<open>
  Claim C5, amended. Nothing checks the configuration and nothing raises a
  configuration error. With \<open>LAYERS \<le> 0\<close> the energy levels are the empty list, the
  loop body never runs, no stimulus is fired and nothing is recorded, and the run
  resolves normally after the retune line. With \<open>LAYERS > 0\<close> the levels are computed
  and the layers run whatever \<open>ALPHA\<close> is, also when it is zero or negative: the run
  resolves exactly when no DOM and no frame-loop stimulus throws, and then every layer
  has recorded its delay.
\<close>

theorem no_configuration_check:
  "(LAYERS cfg \<le> 0 \<longrightarrow>
      energyLevels (CTT_CrossSyncVortex eng cfg) = []
    \<and> triggerCrossDomainVortex eng cfg env (CTT_CrossSyncVortex eng cfg)
        = Resolved ((CTT_CrossSyncVortex eng cfg)
            \<lparr>console := [LogVortexComplete,
                          LogRetuning (ALPHA cfg * (95 / 100 + random (env 0) * (1 / 10)))]\<rparr>)
    \<and> fired (state_of (triggerCrossDomainVortex eng cfg env (CTT_CrossSyncVortex eng cfg))) = []
    \<and> temporalFrequencies (state_of (triggerCrossDomainVortex eng cfg env (CTT_CrossSyncVortex eng cfg))) = [])
   \<and> (0 < LAYERS cfg \<longrightarrow>
      length (energyLevels (CTT_CrossSyncVortex eng cfg)) = nat (LAYERS cfg)
    \<and> (is_Resolved (triggerCrossDomainVortex eng cfg env (CTT_CrossSyncVortex eng cfg)) \<longleftrightarrow>
         (\<forall>d < nat (LAYERS cfg). \<not> dom_throws (env (2 * d)) \<and> \<not> raf_throws (env (2 * d))))
    \<and> (is_Resolved (triggerCrossDomainVortex eng cfg env (CTT_CrossSyncVortex eng cfg)) \<longrightarrow>
         map fst (temporalFrequencies (state_of (triggerCrossDomainVortex eng cfg env (CTT_CrossSyncVortex eng cfg))))
           = [0..<nat (LAYERS cfg)]))"
proof (intro conjI impI)
  assume l: "LAYERS cfg \<le> 0"
  show "energyLevels (CTT_CrossSyncVortex eng cfg) = []"
    using l by (simp add: CTT_CrossSyncVortex_def computeLevels_def)
  show t: "triggerCrossDomainVortex eng cfg env (CTT_CrossSyncVortex eng cfg)
        = Resolved ((CTT_CrossSyncVortex eng cfg)
            \<lparr>console := [LogVortexComplete,
                          LogRetuning (ALPHA cfg * (95 / 100 + random (env 0) * (1 / 10)))]\<rparr>)"
    unfolding trigger_no_layers [OF l] by (simp add: CTT_CrossSyncVortex_def)
  show "fired (state_of (triggerCrossDomainVortex eng cfg env (CTT_CrossSyncVortex eng cfg))) = []"
    unfolding t by (simp add: CTT_CrossSyncVortex_def)
  show "temporalFrequencies (state_of (triggerCrossDomainVortex eng cfg env (CTT_CrossSyncVortex eng cfg))) = []"
    unfolding t by (simp add: CTT_CrossSyncVortex_def)
next
  show "length (energyLevels (CTT_CrossSyncVortex eng cfg)) = nat (LAYERS cfg)"
    by (simp add: CTT_CrossSyncVortex_def length_computeLevels)
  show "is_Resolved (triggerCrossDomainVortex eng cfg env (CTT_CrossSyncVortex eng cfg)) \<longleftrightarrow>
         (\<forall>d < nat (LAYERS cfg). \<not> dom_throws (env (2 * d)) \<and> \<not> raf_throws (env (2 * d)))"
    using trigger_single_run [of eng cfg env] by blast
next
  assume "is_Resolved (triggerCrossDomainVortex eng cfg env (CTT_CrossSyncVortex eng cfg))"
  then have "temporalFrequencies (state_of (triggerCrossDomainVortex eng cfg env (CTT_CrossSyncVortex eng cfg)))
          = map (\<lambda>d. (d, [layerDelay eng cfg env d])) [0..<nat (LAYERS cfg)]"
    using trigger_single_run [of eng cfg env] by blast
  then show "map fst (temporalFrequencies (state_of (triggerCrossDomainVortex eng cfg env (CTT_CrossSyncVortex eng cfg))))
           = [0..<nat (LAYERS cfg)]"
    by (simp add: comp_def)
qed

lemma quiet_run_ok: "\<not> dom_throws (quiet_run i) \<and> \<not> raf_throws (quiet_run i)"
  by (simp add: quiet_run_def browser_at_def)

lemma one_flat_layer_run:
  "triggerCrossDomainVortex binary64 one_flat_layer quiet_run (CTT_CrossSyncVortex binary64 one_flat_layer)
   = Resolved
      \<lparr>energyLevels = [1], totalEnergy = 1, temporalFrequencies = [(0, [2000])],
       resonanceEstablished = False, activeBridge = None,
       console = [LogResonanceIncomplete NaN, LogVortexComplete, LogRetuning 0],
       fired = [DOMPressure 0, WorkerPressure 0, RAFPressure 0], sent = [], listeners = 0,
       stored = None\<rparr>"
proof -
  have pf: "primeFactor one_flat_layer 0 = 2"
    by (simp add: primeFactor_def one_flat_layer_def CTT_CONFIG_def rem_is_zero_def)
  have n: "nat (LAYERS one_flat_layer) = Suc 0" "LAYERS one_flat_layer = 1" "ALPHA one_flat_layer = 0"
    "RESONANCE_THRESHOLD one_flat_layer = 4041 / 10000"
    by (simp_all add: one_flat_layer_def CTT_CONFIG_def)
  have d: "totalDelay one_flat_layer (quiet_run 0) 0 1 = 2000"
    by (simp add: totalDelay_def pf quiet_run_def browser_at_def)
  have w: "\<not> dom_throws (quiet_run 0)" "\<not> raf_throws (quiet_run 0)" "has_Worker (quiet_run 0)"
    "\<not> worker_throws (quiet_run 0)"
    by (simp_all add: quiet_run_def browser_at_def)
  have a: "analyzeResonancePattern binary64 one_flat_layer w st = st\<lparr>console := console st @ [LogResonanceIncomplete NaN]\<rparr>"
    if "temporalFrequencies st = [(0, [2000])]" for w st
    by (rule analyze_no_qualifying) (simp add: that qualifying_def)
  show ?thesis
    by (simp add: triggerCrossDomainVortex_def n CTT_CrossSyncVortex_def computeLevels_def decay_def fsum_def
        energyAt_def
        createTemporalPressure_def applyDOMPressure_def applyWorkerPressure_def applyRAFPressure_def
        recordFrequency_def retuneParameters_def d w a Let_def)
qed

text \<open>
  Claim C5, as stated, fails: with no layers the run resolves (no error); with
  \<open>ALPHA = 0\<close> and one layer the run resolves too, the layer has run (its delay is
  recorded) and its three stimuli have been fired.
\<close>

theorem no_ConfigError_counterexample:
  "LAYERS no_layers \<le> 0
   \<and> is_Resolved (triggerCrossDomainVortex binary64 no_layers quiet_run (CTT_CrossSyncVortex binary64 no_layers))
   \<and> ALPHA one_flat_layer \<le> 0
   \<and> is_Resolved (triggerCrossDomainVortex binary64 one_flat_layer quiet_run (CTT_CrossSyncVortex binary64 one_flat_layer))
   \<and> temporalFrequencies (state_of (triggerCrossDomainVortex binary64 one_flat_layer quiet_run (CTT_CrossSyncVortex binary64 one_flat_layer)))
       = [(0, [2000])]
   \<and> fired (state_of (triggerCrossDomainVortex binary64 one_flat_layer quiet_run (CTT_CrossSyncVortex binary64 one_flat_layer)))
       = [DOMPressure 0, WorkerPressure 0, RAFPressure 0]"
proof -
  have l: "LAYERS no_layers \<le> 0" by (simp add: no_layers_def)
  have r: "is_Resolved (triggerCrossDomainVortex binary64 no_layers quiet_run (CTT_CrossSyncVortex binary64 no_layers))"
    unfolding trigger_no_layers [OF l] by simp
  have a: "ALPHA one_flat_layer \<le> 0" by (simp add: one_flat_layer_def)
  show ?thesis
    using l r a unfolding one_flat_layer_run by simp
qed

theorem no_configuration_check_witness:
  "LAYERS no_layers \<le> 0
   \<and> energyLevels (CTT_CrossSyncVortex binary64 no_layers) = []
   \<and> is_Resolved (triggerCrossDomainVortex binary64 no_layers quiet_run (CTT_CrossSyncVortex binary64 no_layers))
   \<and> fired (state_of (triggerCrossDomainVortex binary64 no_layers quiet_run (CTT_CrossSyncVortex binary64 no_layers))) = []
   \<and> temporalFrequencies (state_of (triggerCrossDomainVortex binary64 no_layers quiet_run (CTT_CrossSyncVortex binary64 no_layers))) = []
   \<and> 0 < LAYERS (CTT_CONFIG\<lparr>ALPHA := 0\<rparr>)
   \<and> is_Resolved (triggerCrossDomainVortex binary64 (CTT_CONFIG\<lparr>ALPHA := 0\<rparr>) quiet_run
        (CTT_CrossSyncVortex binary64 (CTT_CONFIG\<lparr>ALPHA := 0\<rparr>)))
   \<and> map fst (temporalFrequencies (state_of (triggerCrossDomainVortex binary64 (CTT_CONFIG\<lparr>ALPHA := 0\<rparr>) quiet_run
        (CTT_CrossSyncVortex binary64 (CTT_CONFIG\<lparr>ALPHA := 0\<rparr>))))) = [0..<33]"
proof -
  let ?c = "CTT_CONFIG\<lparr>ALPHA := 0\<rparr>"
  have l: "LAYERS no_layers \<le> 0" by (simp add: no_layers_def)
  have p: "0 < LAYERS ?c" "nat (LAYERS ?c) = 33" by (simp_all add: CTT_CONFIG_def)
  note A = no_configuration_check [of no_layers binary64 quiet_run]
  note B = no_configuration_check [of ?c binary64 quiet_run]
  from A l have a: "energyLevels (CTT_CrossSyncVortex binary64 no_layers) = []"
    "fired (state_of (triggerCrossDomainVortex binary64 no_layers quiet_run (CTT_CrossSyncVortex binary64 no_layers))) = []"
    "temporalFrequencies (state_of (triggerCrossDomainVortex binary64 no_layers quiet_run (CTT_CrossSyncVortex binary64 no_layers))) = []"
    by blast+
  from A l have "triggerCrossDomainVortex binary64 no_layers quiet_run (CTT_CrossSyncVortex binary64 no_layers)
        = Resolved ((CTT_CrossSyncVortex binary64 no_layers)
            \<lparr>console := [LogVortexComplete,
                          LogRetuning (ALPHA no_layers * (95 / 100 + random (quiet_run 0) * (1 / 10)))]\<rparr>)"
    by blast
  then have r: "is_Resolved (triggerCrossDomainVortex binary64 no_layers quiet_run (CTT_CrossSyncVortex binary64 no_layers))"
    by simp
  from B p(1) quiet_run_ok have b: "is_Resolved (triggerCrossDomainVortex binary64 ?c quiet_run (CTT_CrossSyncVortex binary64 ?c))"
    by blast
  with B p(1) have "map fst (temporalFrequencies (state_of (triggerCrossDomainVortex binary64 ?c quiet_run (CTT_CrossSyncVortex binary64 ?c))))
      = [0..<nat (LAYERS ?c)]"
    by blast
  then show ?thesis
    using l a r b p by simp
qed

section \<open>Failing stimuli\<close>





end
